theory Spec2Isabelle
  imports Complex_Main
begin

section \<open>Shared types (src/unnamed/part\_000: common.ts, transaction.ts; src/src/types/payment.ts)\<close>

text \<open>
  JavaScript numbers that carry a risk score, a threshold or a factor impact are modelled
  as real numbers; amounts and HTTP status codes as integers. The value NaN has no
  counterpart here. Optional fields (\<open>field?: T\<close>) are \<open>option\<close> values, \<open>None\<close> being
  \<open>undefined\<close>.
\<close>

datatype paymentMethodType = Card | BankAccount | Ach | Sepa | DigitalWallet | Crypto

datatype transactionStatus =
    Initialized | Pending | Authorized | Captured | Failed | Declined
  | Refunded | PartiallyRefunded | Disputed | Canceled | Expired

datatype riskLevel = Low | Medium | High

datatype recommendationType = Block | Review | AdditionalVerification | Allow

text \<open>The string a template literal \<open>${...}\<close> prints for a value of the two string unions.\<close>

fun paymentMethodTypeString :: "paymentMethodType \<Rightarrow> string" where
  "paymentMethodTypeString Card = ''card''"
| "paymentMethodTypeString BankAccount = ''bank_account''"
| "paymentMethodTypeString Ach = ''ach''"
| "paymentMethodTypeString Sepa = ''sepa''"
| "paymentMethodTypeString DigitalWallet = ''digital_wallet''"
| "paymentMethodTypeString Crypto = ''crypto''"

fun transactionStatusString :: "transactionStatus \<Rightarrow> string" where
  "transactionStatusString Initialized = ''initialized''"
| "transactionStatusString Pending = ''pending''"
| "transactionStatusString Authorized = ''authorized''"
| "transactionStatusString Captured = ''captured''"
| "transactionStatusString Failed = ''failed''"
| "transactionStatusString Declined = ''declined''"
| "transactionStatusString Refunded = ''refunded''"
| "transactionStatusString PartiallyRefunded = ''partially_refunded''"
| "transactionStatusString Disputed = ''disputed''"
| "transactionStatusString Canceled = ''canceled''"
| "transactionStatusString Expired = ''expired''"

section \<open>Errors (src/src/types/provider.ts, second document: the error classes)\<close>

text \<open>
  A JavaScript value as \<open>toPaymentError\<close> can receive it (its parameter has type
  \<open>unknown\<close>). The constructors separate exactly the cases the function tests:
  \<open>instanceof PaymentError\<close>, \<open>instanceof Error\<close>, \<open>typeof === 'string'\<close>,
  \<open>typeof === 'object'\<close> with \<open>!== null\<close>, and everything else. \<open>ErrorObject\<close> is an
  instance of \<open>Error\<close> that is not a \<open>PaymentError\<close>, with its name and message;
  \<open>Object\<close> is any other non-null object, with its own properties.
\<close>

datatype jsvalue =
    Undefined
  | Null
  | Boolean bool
  | Number real
  | BigInt int
  | Symbol string
  | String string
  | Function
  | Object "(string \<times> jsvalue) list"
  | ErrorObject string string
  | PaymentErrorObject paymentError
and paymentError =
    PaymentError
      (name: string)
      (message: string)
      (code: string)
      (statusCode: int)
      (retryable: bool)
      (details: "(string \<times> jsvalue) list option")
      (cause: "jsvalue option")

text \<open>The options object of the \<open>PaymentError\<close> constructor; its default is \<open>{}\<close>.\<close>

record paymentErrorOptions =
  opt_code :: "string option"
  opt_statusCode :: "int option"
  opt_retryable :: "bool option"
  opt_details :: "(string \<times> jsvalue) list option"
  opt_cause :: "jsvalue option"

definition noOptions :: paymentErrorOptions where
  "noOptions = \<lparr>opt_code = None, opt_statusCode = None, opt_retryable = None,
                 opt_details = None, opt_cause = None\<rparr>"

text \<open>
  \<open>new PaymentError(message, options)\<close>. The operator \<open>||\<close> takes its right operand when
  the left one is falsy: \<open>undefined\<close>, the empty string, the number 0, \<open>false\<close>.
  The stack trace is not modelled.
\<close>

definition newPaymentError :: "string \<Rightarrow> paymentErrorOptions \<Rightarrow> paymentError" where
  "newPaymentError msg options =
     PaymentError ''PaymentError'' msg
       (case opt_code options of
          None \<Rightarrow> ''payment_error''
        | Some c \<Rightarrow> if c = [] then ''payment_error'' else c)
       (case opt_statusCode options of
          None \<Rightarrow> 500
        | Some n \<Rightarrow> if n = 0 then 500 else n)
       (case opt_retryable options of
          None \<Rightarrow> False
        | Some b \<Rightarrow> b)
       (opt_details options)
       (opt_cause options)"

text \<open>
  The codes of the error classes of the source, in the order the classes are declared:
  the base class first, then its thirteen subclasses.
\<close>

definition errorClassCodes :: "string list" where
  "errorClassCodes =
     [''payment_error'', ''validation_error'', ''authentication_error'',
      ''authorization_error'', ''not_found_error'', ''provider_error'',
      ''payment_declined'', ''rate_limit_error'', ''timeout_error'', ''duplicate_error'',
      ''payment_method_error'', ''fraud_error'', ''insufficient_funds'',
      ''configuration_error'']"

text \<open>
  \<open>toPaymentError(error, defaultMessage = "An unknown error occurred")\<close>. The second
  argument is \<open>None\<close> when the caller leaves it out.
\<close>

fun toPaymentError :: "jsvalue \<Rightarrow> string option \<Rightarrow> paymentError" where
  "toPaymentError (PaymentErrorObject e) d = e"
| "toPaymentError (ErrorObject n m) d =
     newPaymentError
       (if m = [] then (case d of None \<Rightarrow> ''An unknown error occurred'' | Some t \<Rightarrow> t) else m)
       (noOptions\<lparr>opt_cause := Some (ErrorObject n m)\<rparr>)"
| "toPaymentError (String s) d = newPaymentError s noOptions"
| "toPaymentError (Object kv) d =
     newPaymentError (case d of None \<Rightarrow> ''An unknown error occurred'' | Some t \<Rightarrow> t)
       (noOptions\<lparr>opt_details := Some [(''originalError'', Object kv)]\<rparr>)"
| "toPaymentError v d =
     newPaymentError (case d of None \<Rightarrow> ''An unknown error occurred'' | Some t \<Rightarrow> t)
       (noOptions\<lparr>opt_details := None\<rparr>)"

section \<open>Requests, assessments, transactions and the Result envelope\<close>

text \<open>
  Records keep the fields the processor reads or passes on; field names that two
  interfaces share get a prefix. \<open>PaymentRequest\<close>, \<open>RiskAssessment\<close> and
  \<open>PaymentMethod\<close> are in src/src/types/payment.ts, \<open>Transaction\<close> and \<open>Result\<close> in
  src/unnamed/part\_000.
\<close>

record paymentMethod =
  pm_id :: string
  pm_type :: paymentMethodType
  pm_customerId :: string
  isDefault :: bool
  isValidated :: bool

record paymentRequest =
  amount :: int
  currency :: string
  paymentMethodId :: string
  customerId :: string
  description :: "string option"
  authorizeOnly :: "bool option"
  idempotencyKey :: "string option"

record riskFactor =
  factor_name :: string
  factor_description :: string
  impact :: real

record recommendation =
  rec_type :: recommendationType
  rec_description :: string

record riskAssessment =
  score :: real
  level :: riskLevel
  factors :: "riskFactor list"
  recommendations :: "recommendation list"
  triggeredRules :: "string list"

record transactionEvent =
  ev_type :: string
  timestamp :: string
  ev_status :: transactionStatus

record transaction =
  tx_id :: string
  createdAt :: string
  updatedAt :: string
  status :: transactionStatus
  tx_amount :: int
  originalAmount :: int
  tx_currency :: string
  tx_paymentMethodId :: string
  paymentMethodType :: paymentMethodType
  tx_customerId :: string
  isAuthorizedOnly :: bool
  timeline :: "transactionEvent list"

record 'a result =
  success :: bool
  data :: "'a option"
  error :: "jsvalue option"
  errorCode :: "string option"
  errorMessage :: "string option"

text \<open>
  \<open>processPayment\<close> is typed \<open>Result<Transaction>\<close>, but its high-risk rejection stores
  the object \<open>{ riskAssessment: ... }\<close> in \<open>data\<close> under a cast. The data of its result is
  therefore one of two things.
\<close>

datatype payload = TransactionData transaction | RiskAssessmentData riskAssessment

definition asPayload :: "transaction result \<Rightarrow> payload result" where
  "asPayload r =
     \<lparr>success = success r, data = map_option TransactionData (data r), error = error r,
      errorCode = errorCode r, errorMessage = errorMessage r\<rparr>"

text \<open>The failure literal \<open>{ success: false, errorCode, errorMessage }\<close>.\<close>

definition failure :: "string \<Rightarrow> string \<Rightarrow> 'a result" where
  "failure c m =
     \<lparr>success = False, data = None, error = None, errorCode = Some c, errorMessage = Some m\<rparr>"

section \<open>Configuration (src/unnamed/part\_000: PaymentConfiguration)\<close>

text \<open>
  The interface declares both thresholds as numbers; the processor nevertheless guards
  each read with \<open>??\<close>, so each is an option here.
\<close>

record fraudThresholds =
  highRisk :: "real option"
  mediumRisk :: "real option"

record fraudDetectionConfig =
  enabled :: bool
  thresholds :: "fraudThresholds option"

record apiKeys =
  plaidClientId :: "string option"
  plaidSecret :: "string option"
  stripeKey :: "string option"

record paymentConfiguration =
  environment :: string
  defaultCurrency :: string
  apiKeys :: apiKeys
  fraudDetection :: "fraudDetectionConfig option"

text \<open>\<open>this.config.fraudDetection?.enabled\<close>\<close>

definition fraudEnabled :: "paymentConfiguration \<Rightarrow> bool" where
  "fraudEnabled cfg = (case fraudDetection cfg of None \<Rightarrow> False | Some fd \<Rightarrow> enabled fd)"

text \<open>\<open>this.config.fraudDetection.thresholds?.highRisk\<close> and its sibling, as values.\<close>

definition highRiskThreshold :: "paymentConfiguration \<Rightarrow> real option" where
  "highRiskThreshold cfg =
     (case fraudDetection cfg of
        None \<Rightarrow> None
      | Some fd \<Rightarrow> (case thresholds fd of None \<Rightarrow> None | Some t \<Rightarrow> highRisk t))"

definition mediumRiskThreshold :: "paymentConfiguration \<Rightarrow> real option" where
  "mediumRiskThreshold cfg =
     (case fraudDetection cfg of
        None \<Rightarrow> None
      | Some fd \<Rightarrow> (case thresholds fd of None \<Rightarrow> None | Some t \<Rightarrow> mediumRisk t))"

text \<open>Truthiness of an optional number and of an optional string.\<close>

definition truthyNumber :: "real option \<Rightarrow> bool" where
  "truthyNumber v = (case v of None \<Rightarrow> False | Some x \<Rightarrow> x \<noteq> 0)"

definition truthyString :: "string option \<Rightarrow> bool" where
  "truthyString v = (case v of None \<Rightarrow> False | Some s \<Rightarrow> s \<noteq> [])"

section \<open>Collaborators, providers and the processor state\<close>

text \<open>
  The processor calls code that is not part of it: the validation helper, the payment
  method manager, the transaction manager, the fraud detector, the provider adapters and
  the components' own \<open>initialize\<close>. Each such call either returns a value or throws one.
\<close>

datatype 'a outcome = Throws jsvalue | Returns 'a

datatype adapter = StripeCardAdapter | GenericCardProvider | PlaidBankAdapter | SEPAProvider

datatype component =
    TransactionManager | PaymentMethodManager | RecurringBillingManager
  | RefundProcessor | DisputeManager | FraudDetector

text \<open>The object literal handed to an adapter's constructor.\<close>

record providerOptions =
  apiKey :: "string option"
  clientId :: "string option"
  secret :: "string option"
  po_environment :: string

text \<open>
  One entry for every call the processor makes to a collaborator, with its arguments; a
  provider is named by its \<open>id\<close>. The processor's state carries the list of the calls made
  so far, oldest first.
\<close>

datatype call =
    ValidatePaymentRequest paymentRequest
  | GetPaymentMethod string
  | FraudDetectorAssessRisk paymentRequest
  | ProviderAssessRisk string paymentRequest
  | ProviderProcessPayment string paymentRequest
  | ProviderAuthorizePayment string paymentRequest
  | ProviderCapturePayment string string "int option"
  | ProviderCancelPayment string string
  | GetTransaction string
  | SaveTransaction transaction
  | UpdateTransaction transaction
  | NewProvider adapter providerOptions
  | InitializeComponent component

text \<open>
  The calls that move money at a provider or write a transaction to persistence.
\<close>

fun dispatchOrPersist :: "call \<Rightarrow> bool" where
  "dispatchOrPersist (ProviderProcessPayment i r) = True"
| "dispatchOrPersist (ProviderAuthorizePayment i r) = True"
| "dispatchOrPersist (ProviderCapturePayment i t a) = True"
| "dispatchOrPersist (ProviderCancelPayment i t) = True"
| "dispatchOrPersist (SaveTransaction t) = True"
| "dispatchOrPersist (UpdateTransaction t) = True"
| "dispatchOrPersist c = False"

text \<open>
  A \<open>PaymentProvider\<close> (src/src/types/provider.ts). What a method answers may depend on
  the calls made before it, which is its first argument. \<open>assessRisk\<close> is the optional
  method: \<open>None\<close> when the object has no such function.
\<close>

record provider =
  provider_id :: string
  provider_processPayment :: "call list \<Rightarrow> paymentRequest \<Rightarrow> transaction result outcome"
  provider_authorizePayment :: "call list \<Rightarrow> paymentRequest \<Rightarrow> transaction result outcome"
  provider_capturePayment ::
    "call list \<Rightarrow> string \<Rightarrow> int option \<Rightarrow> transaction result outcome"
  provider_cancelPayment :: "call list \<Rightarrow> string \<Rightarrow> transaction result outcome"
  provider_assessRisk ::
    "(call list \<Rightarrow> paymentRequest \<Rightarrow> riskAssessment result outcome) option"

text \<open>
  The other collaborators, taken as parameters. The processor ignores what
  \<open>saveTransaction\<close>, \<open>updateTransaction\<close> and the components' \<open>initialize\<close> return, so
  they return \<open>unit\<close>.
\<close>

record collaborators =
  validatePaymentRequest :: "call list \<Rightarrow> paymentRequest \<Rightarrow> unit outcome"
  getPaymentMethod :: "call list \<Rightarrow> string \<Rightarrow> paymentMethod result outcome"
  fraudDetector_assessRisk :: "call list \<Rightarrow> paymentRequest \<Rightarrow> riskAssessment result outcome"
  getTransaction :: "call list \<Rightarrow> string \<Rightarrow> transaction result outcome"
  saveTransaction :: "call list \<Rightarrow> transaction \<Rightarrow> unit outcome"
  updateTransaction :: "call list \<Rightarrow> transaction \<Rightarrow> unit outcome"
  newProvider :: "call list \<Rightarrow> adapter \<Rightarrow> providerOptions \<Rightarrow> provider outcome"
  initializeComponent :: "call list \<Rightarrow> component \<Rightarrow> unit outcome"

text \<open>
  The fields of \<open>PaymentProcessor\<close> that its methods read or write, and the calls made
  so far. Logger calls are left out: the processor reads nothing back from them.
\<close>

record processor =
  config :: paymentConfiguration
  providerRegistry :: "paymentMethodType \<Rightarrow> provider option"
  initialized :: bool
  calls :: "call list"

section \<open>Sequencing, exceptions and awaited calls\<close>

type_synonym 'a action = "processor \<Rightarrow> 'a outcome \<times> processor"

definition returns :: "'a \<Rightarrow> 'a action" where
  "returns x p = (Returns x, p)"

definition throws :: "jsvalue \<Rightarrow> 'a action" where
  "throws e p = (Throws e, p)"

text \<open>Run \<open>m\<close>, then \<open>f\<close> on its value; a throw of \<open>m\<close> skips \<open>f\<close>.\<close>

definition andThen :: "'a action \<Rightarrow> ('a \<Rightarrow> 'b action) \<Rightarrow> 'b action" where
  "andThen m f p =
     (case m p of
        (Throws e, p') \<Rightarrow> (Throws e, p')
      | (Returns x, p') \<Rightarrow> f x p')"

text \<open>\<open>try { m } catch (error) { h error }\<close>\<close>

definition tryCatch :: "'a action \<Rightarrow> (jsvalue \<Rightarrow> 'a action) \<Rightarrow> 'a action" where
  "tryCatch m h p =
     (case m p of
        (Throws e, p') \<Rightarrow> h e p'
      | (Returns x, p') \<Rightarrow> (Returns x, p'))"

text \<open>
  A call to a collaborator: its answer is taken from the calls made so far, and the call
  is appended to them.
\<close>

definition await :: "call \<Rightarrow> (call list \<Rightarrow> 'a outcome) \<Rightarrow> 'a action" where
  "await c f p = (f (calls p), p\<lparr>calls := calls p @ [c]\<rparr>)"

section \<open>The payment processor (src/src/core/payment\_processor.ts)\<close>

text \<open>\<open>ensureInitialized\<close>, lines 782 to 788.\<close>

definition ensureInitialized :: "unit action" where
  "ensureInitialized p =
     (if \<not> initialized p
      then throws (PaymentErrorObject (newPaymentError
             ''Payment processor has not been initialized. Call initialize() first.''
             noOptions)) p
      else returns () p)"

text \<open>
  Modelled from the spec: \<open>ProviderRegistry.getProvider\<close>, whose class is not among the
  source files. The registry maps a payment method type to at most one provider, and
  \<open>getProvider\<close> returns the provider bound to the type, or nothing.
\<close>

definition getProvider :: "processor \<Rightarrow> paymentMethodType \<Rightarrow> provider option" where
  "getProvider p t = providerRegistry p t"

text \<open>
  Modelled from the spec: \<open>ProviderRegistry.registerProvider\<close>, of the same missing class.
  It overwrites any binding the type already has; the last write wins.
\<close>

definition registerProvider :: "paymentMethodType \<Rightarrow> provider \<Rightarrow> unit action" where
  "registerProvider t prov p =
     (Returns (), p\<lparr>providerRegistry := (providerRegistry p)(t \<mapsto> prov)\<rparr>)"

text \<open>\<open>getProviderForPaymentMethod\<close>, lines 765 to 775.\<close>

definition getProviderForPaymentMethod :: "processor \<Rightarrow> paymentMethodType \<Rightarrow> provider option" where
  "getProviderForPaymentMethod p t =
     (case getProvider p t of None \<Rightarrow> None | Some provider \<Rightarrow> Some provider)"

text \<open>
  The \<open>catch\<close> block every operation but \<open>initialize\<close> ends with: the thrown value is
  converted and returned inside a failure envelope.
\<close>

definition caught :: "jsvalue \<Rightarrow> 'a result action" where
  "caught e =
     returns
       (let paymentError = toPaymentError e None
        in \<lparr>success = False, data = None, error = Some (PaymentErrorObject paymentError),
            errorCode = Some (code paymentError),
            errorMessage = Some (message paymentError)\<rparr>)"

subsection \<open>assessRisk, lines 574 to 664\<close>

text \<open>The assessment returned when fraud detection is disabled, lines 578 to 587.\<close>

definition disabledAssessment :: "riskAssessment result" where
  "disabledAssessment =
     \<lparr>success = True,
      data = Some \<lparr>score = 0, level = Low, factors = [],
                   recommendations =
                     [\<lparr>rec_type = Allow, rec_description = ''Fraud detection disabled''\<rparr>],
                   triggeredRules = []\<rparr>,
      error = None, errorCode = None, errorMessage = None\<rparr>"

text \<open>
  The merge of the provider's assessment with the fraud detector's, lines 605 to 646.
  \<open>a ?? b\<close> is \<open>b\<close> only when \<open>a\<close> is \<open>undefined\<close> or \<open>null\<close>.
\<close>

definition combineRisk ::
  "paymentConfiguration \<Rightarrow> riskAssessment \<Rightarrow> riskAssessment \<Rightarrow> riskAssessment result" where
  "combineRisk cfg providerRisk ownRisk =
     (let combinedScore = max (score providerRisk) (score ownRisk);
          combinedLevel =
            (if combinedScore \<ge> (case highRiskThreshold cfg of None \<Rightarrow> 0.8 | Some h \<Rightarrow> h)
             then High
             else if combinedScore \<ge> (case mediumRiskThreshold cfg of None \<Rightarrow> 0.5 | Some m \<Rightarrow> m)
             then Medium
             else Low)
      in \<lparr>success = True,
          data = Some \<lparr>score = combinedScore, level = combinedLevel,
                       factors = factors providerRisk @ factors ownRisk,
                       recommendations = recommendations providerRisk @ recommendations ownRisk,
                       triggeredRules = triggeredRules providerRisk @ triggeredRules ownRisk\<rparr>,
          error = None, errorCode = None, errorMessage = None\<rparr>)"

text \<open>The three awaited calls of \<open>assessRisk\<close>.\<close>

definition callGetPaymentMethod :: "collaborators \<Rightarrow> string \<Rightarrow> paymentMethod result action" where
  "callGetPaymentMethod env i = await (GetPaymentMethod i) (\<lambda>h. getPaymentMethod env h i)"

definition callProviderAssessRisk ::
  "provider \<Rightarrow> (call list \<Rightarrow> paymentRequest \<Rightarrow> riskAssessment result outcome) \<Rightarrow>
   paymentRequest \<Rightarrow> riskAssessment result action" where
  "callProviderAssessRisk prov f request =
     await (ProviderAssessRisk (provider_id prov) request) (\<lambda>h. f h request)"

definition callFraudDetector :: "collaborators \<Rightarrow> paymentRequest \<Rightarrow> riskAssessment result action" where
  "callFraudDetector env request =
     await (FraudDetectorAssessRisk request) (\<lambda>h. fraudDetector_assessRisk env h request)"

text \<open>
  The body of the \<open>try\<close>, lines 591 to 653. \<open>r.success && r.data\<close> holds when \<open>success\<close>
  is true and \<open>data\<close> is present. Every path that does not return the merge ends in the
  fall-back call of line 653.
\<close>

definition assessRisk_try :: "collaborators \<Rightarrow> paymentRequest \<Rightarrow> riskAssessment result action" where
  "assessRisk_try env request =
     andThen (callGetPaymentMethod env (paymentMethodId request)) (\<lambda>paymentMethod p.
       case (if success paymentMethod then data paymentMethod else None) of
         None \<Rightarrow> callFraudDetector env request p
       | Some pm \<Rightarrow>
           (case getProviderForPaymentMethod p (pm_type pm) of
              None \<Rightarrow> callFraudDetector env request p
            | Some prov \<Rightarrow>
                (case provider_assessRisk prov of
                   None \<Rightarrow> callFraudDetector env request p
                 | Some f \<Rightarrow>
                     andThen (callProviderAssessRisk prov f request) (\<lambda>providerRiskResult.
                       case (if success providerRiskResult then data providerRiskResult
                             else None) of
                         None \<Rightarrow> callFraudDetector env request
                       | Some providerRisk \<Rightarrow>
                           andThen (callFraudDetector env request) (\<lambda>ownRiskResult p'.
                             case (if success ownRiskResult then data ownRiskResult
                                   else None) of
                               None \<Rightarrow> callFraudDetector env request p'
                             | Some ownRisk \<Rightarrow>
                                 returns (combineRisk (config p') providerRisk ownRisk) p'))
                       p)))"

definition assessRisk :: "collaborators \<Rightarrow> paymentRequest \<Rightarrow> riskAssessment result action" where
  "assessRisk env request =
     andThen ensureInitialized (\<lambda>_ p.
       if \<not> fraudEnabled (config p) then returns disabledAssessment p
       else tryCatch (assessRisk_try env request) caught p)"

subsection \<open>processPayment, lines 116 to 201\<close>

text \<open>
  Lines 170 to 190: look the provider up, dispatch, store the transaction, return the
  provider's result.
\<close>

definition callProviderPayment :: "provider \<Rightarrow> paymentRequest \<Rightarrow> transaction result action" where
  "callProviderPayment prov request =
     (if authorizeOnly request = Some True
      then await (ProviderAuthorizePayment (provider_id prov) request)
             (\<lambda>h. provider_authorizePayment prov h request)
      else await (ProviderProcessPayment (provider_id prov) request)
             (\<lambda>h. provider_processPayment prov h request))"

definition callSaveTransaction :: "collaborators \<Rightarrow> transaction \<Rightarrow> unit action" where
  "callSaveTransaction env t = await (SaveTransaction t) (\<lambda>h. saveTransaction env h t)"

definition dispatchPayment ::
  "collaborators \<Rightarrow> paymentRequest \<Rightarrow> paymentMethodType \<Rightarrow> payload result action" where
  "dispatchPayment env request methodType p =
     (case getProviderForPaymentMethod p methodType of
        None \<Rightarrow>
          returns (failure ''provider_not_found''
                     (''No provider available for payment method type: ''
                      @ paymentMethodTypeString methodType)) p
      | Some prov \<Rightarrow>
          andThen (callProviderPayment prov request) (\<lambda>result.
            andThen
              (if success result
               then (case data result of
                       None \<Rightarrow> returns ()
                     | Some t \<Rightarrow> callSaveTransaction env t)
               else returns ())
              (\<lambda>_. returns (asPayload result))) p)"

text \<open>
  Lines 142 to 168, followed by the dispatch. The last conjunct of the high-risk test is
  the threshold itself, read for its truthiness.
\<close>

definition blocksHighRisk :: "paymentConfiguration \<Rightarrow> riskAssessment result \<Rightarrow> bool" where
  "blocksHighRisk cfg riskAssessment =
     (case data riskAssessment of
        None \<Rightarrow> False
      | Some a \<Rightarrow> level a = High \<and> truthyNumber (highRiskThreshold cfg))"

definition checkRiskThenDispatch ::
  "collaborators \<Rightarrow> paymentRequest \<Rightarrow> paymentMethodType \<Rightarrow> payload result action" where
  "checkRiskThenDispatch env request methodType p =
     (if fraudEnabled (config p)
      then andThen (assessRisk env request) (\<lambda>riskAssessment.
             if \<not> success riskAssessment
             then returns (failure ''fraud_detection_error''
                    (case errorMessage riskAssessment of
                       None \<Rightarrow> ''Could not complete fraud assessment''
                     | Some m \<Rightarrow> if m = [] then ''Could not complete fraud assessment'' else m))
             else if blocksHighRisk (config p) riskAssessment
             then returns
                    \<lparr>success = False,
                     data = map_option RiskAssessmentData (data riskAssessment),
                     error = None, errorCode = Some ''high_risk_payment'',
                     errorMessage = Some ''Payment flagged as high risk''\<rparr>
             else dispatchPayment env request methodType) p
      else dispatchPayment env request methodType p)"

definition callValidate :: "collaborators \<Rightarrow> paymentRequest \<Rightarrow> unit action" where
  "callValidate env request =
     await (ValidatePaymentRequest request) (\<lambda>h. validatePaymentRequest env h request)"

definition processPayment :: "collaborators \<Rightarrow> paymentRequest \<Rightarrow> payload result action" where
  "processPayment env request =
     andThen ensureInitialized (\<lambda>_.
       tryCatch
         (andThen (callValidate env request) (\<lambda>_.
          andThen (callGetPaymentMethod env (paymentMethodId request)) (\<lambda>paymentMethod.
            case (if success paymentMethod then data paymentMethod else None) of
              None \<Rightarrow>
                returns (failure ''payment_method_error''
                           ''Invalid payment method ID or payment method not found'')
            | Some pm \<Rightarrow> checkRiskThenDispatch env request (pm_type pm))))
         caught)"

text \<open>\<open>authorizePayment\<close>, lines 209 to 214.\<close>

definition authorizePayment :: "collaborators \<Rightarrow> paymentRequest \<Rightarrow> payload result action" where
  "authorizePayment env request = processPayment env (request\<lparr>authorizeOnly := Some True\<rparr>)"

subsection \<open>capturePayment, lines 223 to 286, and cancelPayment, lines 294 to 354\<close>

definition callGetTransaction :: "collaborators \<Rightarrow> string \<Rightarrow> transaction result action" where
  "callGetTransaction env i = await (GetTransaction i) (\<lambda>h. getTransaction env h i)"

definition callUpdateTransaction :: "collaborators \<Rightarrow> transaction \<Rightarrow> unit action" where
  "callUpdateTransaction env t = await (UpdateTransaction t) (\<lambda>h. updateTransaction env h t)"

text \<open>Lines 338 to 343 and 267 to 272: update the stored transaction, return the result.\<close>

definition updateAndReturn :: "collaborators \<Rightarrow> transaction result \<Rightarrow> transaction result action" where
  "updateAndReturn env result =
     andThen
       (if success result
        then (case data result of
                None \<Rightarrow> returns ()
              | Some t \<Rightarrow> callUpdateTransaction env t)
        else returns ())
       (\<lambda>_. returns result)"

definition capturePayment ::
  "collaborators \<Rightarrow> string \<Rightarrow> int option \<Rightarrow> transaction result action" where
  "capturePayment env transactionId amt =
     andThen ensureInitialized (\<lambda>_.
       tryCatch
         (andThen (callGetTransaction env transactionId) (\<lambda>transactionResult p.
            case (if success transactionResult then data transactionResult else None) of
              None \<Rightarrow>
                returns (failure ''transaction_not_found''
                           (''Transaction with ID '' @ transactionId @ '' not found'')) p
            | Some t \<Rightarrow>
                if status t \<noteq> Authorized
                then returns (failure ''invalid_transaction_state''
                       (''Transaction with ID '' @ transactionId
                        @ '' cannot be captured (status: ''
                        @ transactionStatusString (status t) @ '')'')) p
                else (case getProviderForPaymentMethod p (paymentMethodType t) of
                        None \<Rightarrow>
                          returns (failure ''provider_not_found''
                                     (''No provider available for payment method type: ''
                                      @ paymentMethodTypeString (paymentMethodType t))) p
                      | Some prov \<Rightarrow>
                          andThen
                            (await (ProviderCapturePayment (provider_id prov) transactionId amt)
                               (\<lambda>h. provider_capturePayment prov h transactionId amt))
                            (updateAndReturn env) p)))
         caught)"

definition cancelPayment :: "collaborators \<Rightarrow> string \<Rightarrow> transaction result action" where
  "cancelPayment env transactionId =
     andThen ensureInitialized (\<lambda>_.
       tryCatch
         (andThen (callGetTransaction env transactionId) (\<lambda>transactionResult p.
            case (if success transactionResult then data transactionResult else None) of
              None \<Rightarrow>
                returns (failure ''transaction_not_found''
                           (''Transaction with ID '' @ transactionId @ '' not found'')) p
            | Some t \<Rightarrow>
                if status t \<noteq> Initialized \<and> status t \<noteq> Authorized \<and> status t \<noteq> Pending
                then returns (failure ''invalid_transaction_state''
                       (''Transaction with ID '' @ transactionId
                        @ '' cannot be canceled (status: ''
                        @ transactionStatusString (status t) @ '')'')) p
                else (case getProviderForPaymentMethod p (paymentMethodType t) of
                        None \<Rightarrow>
                          returns (failure ''provider_not_found''
                                     (''No provider available for payment method type: ''
                                      @ paymentMethodTypeString (paymentMethodType t))) p
                      | Some prov \<Rightarrow>
                          andThen
                            (await (ProviderCancelPayment (provider_id prov) transactionId)
                               (\<lambda>h. provider_cancelPayment prov h transactionId))
                            (updateAndReturn env) p)))
         caught)"

subsection \<open>initialize, lines 83 to 108, and registerProviders, lines 712 to 757\<close>

definition callNewProvider :: "collaborators \<Rightarrow> adapter \<Rightarrow> providerOptions \<Rightarrow> provider action" where
  "callNewProvider env a opts = await (NewProvider a opts) (\<lambda>h. newProvider env h a opts)"

definition registerProviders :: "collaborators \<Rightarrow> unit action" where
  "registerProviders env p =
     andThen
       (if truthyString (stripeKey (apiKeys (config p)))
        then andThen
               (callNewProvider env StripeCardAdapter
                  \<lparr>apiKey = stripeKey (apiKeys (config p)), clientId = None, secret = None,
                   po_environment = environment (config p)\<rparr>)
               (registerProvider Card)
        else andThen
               (callNewProvider env GenericCardProvider
                  \<lparr>apiKey = None, clientId = None, secret = None,
                   po_environment = environment (config p)\<rparr>)
               (registerProvider Card))
       (\<lambda>_. andThen
          (if truthyString (plaidClientId (apiKeys (config p)))
              \<and> truthyString (plaidSecret (apiKeys (config p)))
           then andThen
                  (callNewProvider env PlaidBankAdapter
                     \<lparr>apiKey = None, clientId = plaidClientId (apiKeys (config p)),
                      secret = plaidSecret (apiKeys (config p)),
                      po_environment = environment (config p)\<rparr>)
                  (registerProvider Ach)
           else returns ())
          (\<lambda>_. if truthyString (stripeKey (apiKeys (config p)))
                then andThen
                       (callNewProvider env SEPAProvider
                          \<lparr>apiKey = stripeKey (apiKeys (config p)), clientId = None,
                           secret = None, po_environment = environment (config p)\<rparr>)
                       (registerProvider Sepa)
                else returns ()))
       p"

definition callInitialize :: "collaborators \<Rightarrow> component \<Rightarrow> unit action" where
  "callInitialize env c = await (InitializeComponent c) (\<lambda>h. initializeComponent env h c)"

definition initialize :: "collaborators \<Rightarrow> unit action" where
  "initialize env p =
     (if initialized p then returns () p
      else tryCatch
             (andThen (registerProviders env) (\<lambda>_.
              andThen (callInitialize env TransactionManager) (\<lambda>_.
              andThen (callInitialize env PaymentMethodManager) (\<lambda>_.
              andThen (callInitialize env RecurringBillingManager) (\<lambda>_.
              andThen (callInitialize env RefundProcessor) (\<lambda>_.
              andThen (callInitialize env DisputeManager) (\<lambda>_.
              andThen (callInitialize env FraudDetector) (\<lambda>_ p'.
                returns () (p'\<lparr>initialized := True\<rparr>)))))))))
             (\<lambda>e. throws (PaymentErrorObject
                     (toPaymentError e (Some ''Failed to initialize PaymentProcessor''))))
             p)"

section \<open>Vocabulary for the statements\<close>

text \<open>
  State \<open>p'\<close> differs from \<open>p\<close> only by further calls, none of which dispatches to a
  provider or writes to persistence.
\<close>

definition quietFrom :: "processor \<Rightarrow> processor \<Rightarrow> bool" where
  "quietFrom p p' =
     (\<exists>cs. p' = p\<lparr>calls := calls p @ cs\<rparr> \<and> filter dispatchOrPersist cs = [])"

section \<open>Example values\<close>

text \<open>
  A request, a payment method, a transaction, a card provider that can assess risk, and
  collaborators that answer every call the same way. The collaborators are built from
  what the fraud detector answers, the status of the stored transaction and what
  \<open>saveTransaction\<close> does; the processor from its fraud detection settings, its
  registry, its \<open>initialized\<close> flag and the calls made so far.
\<close>

definition exampleRequest :: paymentRequest where
  "exampleRequest =
     \<lparr>amount = 1999, currency = ''USD'', paymentMethodId = ''pm_1'', customerId = ''cust_1'',
      description = None, authorizeOnly = Some True, idempotencyKey = None\<rparr>"

definition exampleMethod :: paymentMethod where
  "exampleMethod =
     \<lparr>pm_id = ''pm_1'', pm_type = Card, pm_customerId = ''cust_1'', isDefault = True,
      isValidated = True\<rparr>"

definition exampleTransaction :: "transactionStatus \<Rightarrow> transaction" where
  "exampleTransaction st =
     \<lparr>tx_id = ''tx_1'', createdAt = ''2024-01-01T00:00:00Z'',
      updatedAt = ''2024-01-01T00:00:00Z'', status = st, tx_amount = 1999,
      originalAmount = 1999, tx_currency = ''USD'', tx_paymentMethodId = ''pm_1'',
      paymentMethodType = Card, tx_customerId = ''cust_1'', isAuthorizedOnly = True,
      timeline = [\<lparr>ev_type = ''status_change'', timestamp = ''2024-01-01T00:00:00Z'',
                   ev_status = st\<rparr>]\<rparr>"

definition succeeded :: "'a \<Rightarrow> 'a result" where
  "succeeded x =
     \<lparr>success = True, data = Some x, error = None, errorCode = None, errorMessage = None\<rparr>"

definition exampleProviderRisk :: riskAssessment where
  "exampleProviderRisk =
     \<lparr>score = 0.3, level = Low,
      factors = [\<lparr>factor_name = ''card_age'', factor_description = ''new card'',
                  impact = 0.3\<rparr>],
      recommendations = [\<lparr>rec_type = Allow, rec_description = ''provider allows''\<rparr>],
      triggeredRules = [''provider_rule'']\<rparr>"

definition exampleOwnRisk :: "real \<Rightarrow> riskLevel \<Rightarrow> riskAssessment" where
  "exampleOwnRisk s l =
     \<lparr>score = s, level = l,
      factors = [\<lparr>factor_name = ''velocity'', factor_description = ''many attempts'',
                  impact = s\<rparr>],
      recommendations = [\<lparr>rec_type = Review, rec_description = ''detector reviews''\<rparr>],
      triggeredRules = [''velocity_rule'']\<rparr>"

definition exampleProvider :: provider where
  "exampleProvider =
     \<lparr>provider_id = ''generic_card'',
      provider_processPayment = (\<lambda>h r. Returns (succeeded (exampleTransaction Captured))),
      provider_authorizePayment = (\<lambda>h r. Returns (succeeded (exampleTransaction Authorized))),
      provider_capturePayment = (\<lambda>h i a. Returns (succeeded (exampleTransaction Captured))),
      provider_cancelPayment = (\<lambda>h i. Returns (succeeded (exampleTransaction Canceled))),
      provider_assessRisk = Some (\<lambda>h r. Returns (succeeded exampleProviderRisk))\<rparr>"

definition exampleCollaborators ::
  "riskAssessment result outcome \<Rightarrow> transactionStatus \<Rightarrow> unit outcome \<Rightarrow> collaborators" where
  "exampleCollaborators risk st saved =
     \<lparr>validatePaymentRequest = (\<lambda>h r. Returns ()),
      getPaymentMethod = (\<lambda>h i. Returns (succeeded exampleMethod)),
      fraudDetector_assessRisk = (\<lambda>h r. risk),
      getTransaction = (\<lambda>h i. Returns (succeeded (exampleTransaction st))),
      saveTransaction = (\<lambda>h t. saved),
      updateTransaction = (\<lambda>h t. Returns ()),
      newProvider = (\<lambda>h a opts. Returns exampleProvider),
      initializeComponent = (\<lambda>h c. Returns ())\<rparr>"

definition exampleConfig :: "fraudDetectionConfig option \<Rightarrow> paymentConfiguration" where
  "exampleConfig fd =
     \<lparr>environment = ''sandbox'', defaultCurrency = ''USD'',
      apiKeys = \<lparr>plaidClientId = None, plaidSecret = None, stripeKey = None\<rparr>,
      fraudDetection = fd\<rparr>"

definition fraudOn :: "real \<Rightarrow> real \<Rightarrow> fraudDetectionConfig option" where
  "fraudOn h m = Some \<lparr>enabled = True, thresholds = Some \<lparr>highRisk = Some h, mediumRisk = Some m\<rparr>\<rparr>"

definition exampleProcessor ::
  "fraudDetectionConfig option \<Rightarrow> (paymentMethodType \<Rightarrow> provider option) \<Rightarrow> bool \<Rightarrow> call list
   \<Rightarrow> processor" where
  "exampleProcessor fd reg ini cs =
     \<lparr>config = exampleConfig fd, providerRegistry = reg, initialized = ini, calls = cs\<rparr>"

section \<open>Unfolding rules\<close>

lemmas example_defs =
  exampleRequest_def exampleMethod_def exampleTransaction_def succeeded_def
  exampleProviderRisk_def exampleOwnRisk_def exampleProvider_def exampleCollaborators_def
  exampleConfig_def fraudOn_def exampleProcessor_def

lemmas call_defs =
  callValidate_def callGetPaymentMethod_def callProviderAssessRisk_def callFraudDetector_def
  callProviderPayment_def callSaveTransaction_def callGetTransaction_def
  callUpdateTransaction_def callNewProvider_def callInitialize_def await_def

lemmas processor_defs =
  processPayment_def checkRiskThenDispatch_def dispatchPayment_def assessRisk_def
  assessRisk_try_def combineRisk_def blocksHighRisk_def caught_def ensureInitialized_def
  getProviderForPaymentMethod_def getProvider_def fraudEnabled_def highRiskThreshold_def
  mediumRiskThreshold_def truthyNumber_def truthyString_def asPayload_def failure_def
  andThen_def tryCatch_def returns_def throws_def newPaymentError_def noOptions_def
  Let_def

lemma ensureInitialized_ok: "initialized p \<Longrightarrow> ensureInitialized p = (Returns (), p)"
  by (simp add: ensureInitialized_def returns_def)

lemma await_state: "await c f p = (r, p') \<Longrightarrow> p' = p\<lparr>calls := calls p @ [c]\<rparr>"
  by (auto simp: await_def)

lemma andThen_ReturnsE:
  assumes "andThen m f p = (Returns y, p')"
  obtains x p1 where "m p = (Returns x, p1)" and "f x p1 = (Returns y, p')"
  using assms by (auto simp: andThen_def split: prod.splits outcome.splits)

section \<open>Properties of the error conversion\<close>

text \<open>
  C6. \<open>toPaymentError\<close> is defined on every JavaScript value and always yields a
  \<open>PaymentError\<close>: its argument itself when that is one, and otherwise a new error of
  the base class with the code \<open>payment_error\<close>, status 500, not retryable. Converting
  the result of a conversion again gives the same error, whatever default message the
  second conversion is given, and a value that is already a \<open>PaymentError\<close> comes back
  unchanged, so with the same code, status code and retryable flag.
\<close>

theorem toPaymentError_idempotent:
  "toPaymentError (PaymentErrorObject (toPaymentError x d)) d' = toPaymentError x d
   \<and> toPaymentError (PaymentErrorObject e) d = e
   \<and> code (toPaymentError (PaymentErrorObject e) d) = code e
   \<and> statusCode (toPaymentError (PaymentErrorObject e) d) = statusCode e
   \<and> retryable (toPaymentError (PaymentErrorObject e) d) = retryable e
   \<and> ((\<exists>e'. x = PaymentErrorObject e' \<and> toPaymentError x d = e')
        \<or> (name (toPaymentError x d) = ''PaymentError''
            \<and> code (toPaymentError x d) = ''payment_error''
            \<and> statusCode (toPaymentError x d) = 500
            \<and> retryable (toPaymentError x d) = False))"
  by (cases x) (simp_all add: newPaymentError_def noOptions_def)

section \<open>Properties of assessRisk\<close>

text \<open>
  C5. On an initialized processor whose configuration has fraud detection disabled (no
  \<open>fraudDetection\<close> object, or \<open>enabled\<close> false), \<open>assessRisk\<close> returns, for every
  request and whatever the collaborators would answer, the same successful envelope:
  score 0, level low, no factors, no triggered rules and the single recommendation
  \<open>allow\<close>. The state it returns is the state it was given, so it has called neither
  the provider nor the fraud detector.
\<close>

theorem assessRisk_disabled:
  assumes "initialized p" and "\<not> fraudEnabled (config p)"
  shows "assessRisk env request p =
    (Returns \<lparr>success = True,
      data = Some \<lparr>score = 0, level = Low, factors = [],
                   recommendations =
                     [\<lparr>rec_type = Allow, rec_description = ''Fraud detection disabled''\<rparr>],
                   triggeredRules = []\<rparr>,
      error = None, errorCode = None, errorMessage = None\<rparr>, p)"
  using assms
  by (simp add: assessRisk_def andThen_def ensureInitialized_ok returns_def
      disabledAssessment_def)

text \<open>
  The fast path at the example request, with a fraud detector that would throw if it
  were called.
\<close>

theorem assessRisk_disabled_witness:
  "assessRisk (exampleCollaborators (Throws Undefined) Captured (Returns ())) exampleRequest
     (exampleProcessor None Map.empty True []) =
   (Returns \<lparr>success = True,
      data = Some \<lparr>score = 0, level = Low, factors = [],
                   recommendations =
                     [\<lparr>rec_type = Allow, rec_description = ''Fraud detection disabled''\<rparr>],
                   triggeredRules = []\<rparr>,
      error = None, errorCode = None, errorMessage = None\<rparr>,
    exampleProcessor None Map.empty True [])"
proof -
  have h1: "initialized (exampleProcessor None Map.empty True [])"
    by (simp add: exampleProcessor_def)
  have h2: "\<not> fraudEnabled (config (exampleProcessor None Map.empty True []))"
    by (simp add: exampleProcessor_def exampleConfig_def fraudEnabled_def)
  show ?thesis
    by (rule assessRisk_disabled [OF h1 h2])
qed

text \<open>
  C1. Fraud detection is enabled, the payment method resolves to a type whose provider
  has \<open>assessRisk\<close>, the provider's assessment succeeds with data and so does the fraud
  detector's. Then \<open>assessRisk\<close> returns a successful envelope whose assessment has
  the larger of the two scores, hence a score at least as large as each of them; its
  level is high exactly when that score reaches the \<open>highRisk\<close> threshold (0.8 when
  unset), medium exactly when it does not but reaches the \<open>mediumRisk\<close> threshold (0.5
  when unset), low exactly when it reaches neither; its factors, recommendations and
  triggered rules are the provider's followed by the fraud detector's, nothing removed.
\<close>

theorem assessRisk_merges:
  assumes init: "initialized p"
    and en: "fraudEnabled (config p)"
    and pm: "callGetPaymentMethod env (paymentMethodId request) p = (Returns pmr, p1)"
            "success pmr" "data pmr = Some pm"
    and prov: "getProviderForPaymentMethod p (pm_type pm) = Some prov"
              "provider_assessRisk prov = Some f"
    and pr: "callProviderAssessRisk prov f request p1 = (Returns prr, p2)"
            "success prr" "data prr = Some providerRisk"
    and own: "callFraudDetector env request p2 = (Returns orr, p3)"
            "success orr" "data orr = Some ownRisk"
  shows "\<exists>a. assessRisk env request p =
            (Returns \<lparr>success = True, data = Some a, error = None, errorCode = None,
                      errorMessage = None\<rparr>, p3)
     \<and> score a = max (score providerRisk) (score ownRisk)
     \<and> score a \<ge> score providerRisk \<and> score a \<ge> score ownRisk
     \<and> (level a = High \<longleftrightarrow>
          score a \<ge> (case highRiskThreshold (config p) of None \<Rightarrow> 0.8 | Some h \<Rightarrow> h))
     \<and> (level a = Medium \<longleftrightarrow>
          \<not> score a \<ge> (case highRiskThreshold (config p) of None \<Rightarrow> 0.8 | Some h \<Rightarrow> h)
          \<and> score a \<ge> (case mediumRiskThreshold (config p) of None \<Rightarrow> 0.5 | Some m \<Rightarrow> m))
     \<and> (level a = Low \<longleftrightarrow>
          \<not> score a \<ge> (case highRiskThreshold (config p) of None \<Rightarrow> 0.8 | Some h \<Rightarrow> h)
          \<and> \<not> score a \<ge> (case mediumRiskThreshold (config p) of None \<Rightarrow> 0.5 | Some m \<Rightarrow> m))
     \<and> factors a = factors providerRisk @ factors ownRisk
     \<and> recommendations a = recommendations providerRisk @ recommendations ownRisk
     \<and> triggeredRules a = triggeredRules providerRisk @ triggeredRules ownRisk"
proof -
  have p1: "p1 = p\<lparr>calls := calls p @ [GetPaymentMethod (paymentMethodId request)]\<rparr>"
    using pm(1) by (auto simp: callGetPaymentMethod_def await_def)
  have p2: "config p2 = config p"
    using pr(1) p1 by (auto simp: callProviderAssessRisk_def await_def)
  have p3: "config p3 = config p"
    using own(1) p2 by (auto simp: callFraudDetector_def await_def)
  have prov1: "getProviderForPaymentMethod p1 (pm_type pm) = Some prov"
    using prov(1) p1 by (simp add: getProviderForPaymentMethod_def getProvider_def)
  have body: "assessRisk_try env request p =
      (Returns (combineRisk (config p) providerRisk ownRisk), p3)"
    unfolding assessRisk_try_def
    by (simp add: andThen_def pm prov1 prov pr own returns_def p3)
  have "assessRisk env request p = (Returns (combineRisk (config p) providerRisk ownRisk), p3)"
    unfolding assessRisk_def
    by (simp add: andThen_def ensureInitialized_ok init en tryCatch_def body)
  then show ?thesis
    by (simp add: combineRisk_def Let_def)
qed

text \<open>
  Provider score 0.3, fraud detector score 0.9, thresholds 0.8 and 0.5: the merge has
  score 0.9 and level high, and lists the provider's entries first.
\<close>

theorem assessRisk_merges_witness:
  "\<exists>a. assessRisk (exampleCollaborators (Returns (succeeded (exampleOwnRisk 0.9 High)))
                     Captured (Returns ()))
          exampleRequest
          (exampleProcessor (fraudOn 0.8 0.5) [Card \<mapsto> exampleProvider] True []) =
        (Returns \<lparr>success = True, data = Some a, error = None, errorCode = None,
                  errorMessage = None\<rparr>,
         exampleProcessor (fraudOn 0.8 0.5) [Card \<mapsto> exampleProvider] True
           [GetPaymentMethod ''pm_1'', ProviderAssessRisk ''generic_card'' exampleRequest,
            FraudDetectorAssessRisk exampleRequest])
     \<and> score a = 0.9 \<and> level a = High
     \<and> factors a = factors exampleProviderRisk @ factors (exampleOwnRisk 0.9 High)
     \<and> recommendations a =
         recommendations exampleProviderRisk @ recommendations (exampleOwnRisk 0.9 High)
     \<and> triggeredRules a = [''provider_rule'', ''velocity_rule'']"
proof -
  let ?env = "exampleCollaborators (Returns (succeeded (exampleOwnRisk 0.9 High)))
                Captured (Returns ())"
  let ?p = "\<lambda>cs. exampleProcessor (fraudOn 0.8 0.5) [Card \<mapsto> exampleProvider] True cs"
  have h1: "initialized (?p [])"
    by (simp add: exampleProcessor_def)
  have h2: "fraudEnabled (config (?p []))"
    by (simp add: exampleProcessor_def exampleConfig_def fraudEnabled_def fraudOn_def)
  have h3: "callGetPaymentMethod ?env (paymentMethodId exampleRequest) (?p []) =
              (Returns (succeeded exampleMethod), ?p [GetPaymentMethod ''pm_1''])"
    by (simp add: call_defs exampleCollaborators_def exampleProcessor_def exampleRequest_def)
  have h4: "success (succeeded exampleMethod)" "data (succeeded exampleMethod) = Some exampleMethod"
    by (simp_all add: succeeded_def)
  have h5: "getProviderForPaymentMethod (?p []) (pm_type exampleMethod) = Some exampleProvider"
    by (simp add: getProviderForPaymentMethod_def getProvider_def exampleProcessor_def
        exampleMethod_def)
  have h6: "provider_assessRisk exampleProvider =
              Some (\<lambda>h r. Returns (succeeded exampleProviderRisk))"
    by (simp add: exampleProvider_def)
  have h7: "callProviderAssessRisk exampleProvider (\<lambda>h r. Returns (succeeded exampleProviderRisk))
              exampleRequest (?p [GetPaymentMethod ''pm_1'']) =
              (Returns (succeeded exampleProviderRisk),
               ?p [GetPaymentMethod ''pm_1'', ProviderAssessRisk ''generic_card'' exampleRequest])"
    by (simp add: call_defs exampleProvider_def exampleProcessor_def)
  have h8: "success (succeeded exampleProviderRisk)"
    "data (succeeded exampleProviderRisk) = Some exampleProviderRisk"
    by (simp_all add: succeeded_def)
  have h9: "callFraudDetector ?env exampleRequest
              (?p [GetPaymentMethod ''pm_1'', ProviderAssessRisk ''generic_card'' exampleRequest]) =
              (Returns (succeeded (exampleOwnRisk 0.9 High)),
               ?p [GetPaymentMethod ''pm_1'', ProviderAssessRisk ''generic_card'' exampleRequest,
                   FraudDetectorAssessRisk exampleRequest])"
    by (simp add: call_defs exampleCollaborators_def exampleProcessor_def)
  have h10: "success (succeeded (exampleOwnRisk 0.9 High))"
    "data (succeeded (exampleOwnRisk 0.9 High)) = Some (exampleOwnRisk 0.9 High)"
    by (simp_all add: succeeded_def)
  from assessRisk_merges [OF h1 h2 h3 h4 h5 h6 h7 h8 h9 h10]
  obtain a where a: "assessRisk ?env exampleRequest (?p []) =
        (Returns \<lparr>success = True, data = Some a, error = None, errorCode = None,
                  errorMessage = None\<rparr>,
         ?p [GetPaymentMethod ''pm_1'', ProviderAssessRisk ''generic_card'' exampleRequest,
            FraudDetectorAssessRisk exampleRequest])"
    "score a = max (score exampleProviderRisk) (score (exampleOwnRisk 0.9 High))"
    "level a = High \<longleftrightarrow> score a \<ge> (case highRiskThreshold (config (?p [])) of
                                       None \<Rightarrow> 0.8 | Some h \<Rightarrow> h)"
    "factors a = factors exampleProviderRisk @ factors (exampleOwnRisk 0.9 High)"
    "recommendations a =
         recommendations exampleProviderRisk @ recommendations (exampleOwnRisk 0.9 High)"
    "triggeredRules a =
         triggeredRules exampleProviderRisk @ triggeredRules (exampleOwnRisk 0.9 High)"
    by blast
  have "score a = 0.9"
    using a(2) by (simp add: exampleProviderRisk_def exampleOwnRisk_def)
  moreover have "level a = High"
    using a(3) \<open>score a = 0.9\<close>
    by (simp add: highRiskThreshold_def exampleProcessor_def exampleConfig_def fraudOn_def)
  moreover have "triggeredRules a = [''provider_rule'', ''velocity_rule'']"
    using a(6) by (simp add: exampleProviderRisk_def exampleOwnRisk_def)
  ultimately show ?thesis
    using a(1) a(4) a(5) by blast
qed

text \<open>
  \<open>assessRisk\<close> only reads: whatever the collaborators answer, it leaves the
  configuration, the registry and the \<open>initialized\<close> flag as they are, and none of the
  calls it makes dispatches a payment or writes a transaction.
\<close>

lemma quietFrom_same: "quietFrom p p"
  unfolding quietFrom_def by (rule exI [of _ "[]"]) simp

lemma quietFrom_returns: "quietFrom p (snd (returns x p))"
  by (simp add: returns_def quietFrom_same)

lemma quietFrom_throws: "quietFrom p (snd (throws x p))"
  by (simp add: throws_def quietFrom_same)

lemma quietFrom_await: "\<not> dispatchOrPersist c \<Longrightarrow> quietFrom p (snd (await c f p))"
  unfolding quietFrom_def await_def by (rule exI [of _ "[c]"]) simp

lemma quietFrom_trans:
  assumes "quietFrom p p1" and "quietFrom p1 p2"
  shows "quietFrom p p2"
proof -
  from assms(1) obtain cs where cs: "p1 = p\<lparr>calls := calls p @ cs\<rparr>"
    "filter dispatchOrPersist cs = []"
    unfolding quietFrom_def by auto
  from assms(2) obtain ds where ds: "p2 = p1\<lparr>calls := calls p1 @ ds\<rparr>"
    "filter dispatchOrPersist ds = []"
    unfolding quietFrom_def by auto
  have "p2 = p\<lparr>calls := calls p @ (cs @ ds)\<rparr>"
    using cs(1) ds(1) by simp
  moreover have "filter dispatchOrPersist (cs @ ds) = []"
    using cs(2) ds(2) by simp
  ultimately show ?thesis
    unfolding quietFrom_def by blast
qed

lemma quietFrom_andThen:
  assumes "quietFrom p (snd (m p))" and "\<And>x p1. quietFrom p1 (snd (f x p1))"
  shows "quietFrom p (snd (andThen m f p))"
proof -
  obtain r p1 where mp: "m p = (r, p1)" by (cases "m p")
  show ?thesis
  proof (cases r)
    case (Throws e)
    then show ?thesis using mp assms(1) by (simp add: andThen_def)
  next
    case (Returns x)
    have "quietFrom p (snd (f x p1))"
      using assms(1) assms(2) [of p1 x] mp by (auto intro: quietFrom_trans)
    then show ?thesis using mp Returns by (simp add: andThen_def)
  qed
qed

lemma quietFrom_tryCatch:
  assumes "quietFrom p (snd (m p))" and "\<And>e p1. quietFrom p1 (snd (h e p1))"
  shows "quietFrom p (snd (tryCatch m h p))"
proof -
  obtain r p1 where mp: "m p = (r, p1)" by (cases "m p")
  show ?thesis
  proof (cases r)
    case (Returns x)
    then show ?thesis using mp assms(1) by (simp add: tryCatch_def)
  next
    case (Throws e)
    have "quietFrom p (snd (h e p1))"
      using assms(1) assms(2) [of p1 e] mp by (auto intro: quietFrom_trans)
    then show ?thesis using mp Throws by (simp add: tryCatch_def)
  qed
qed

lemma quietFrom_callFraudDetector: "quietFrom p (snd (callFraudDetector env request p))"
  by (simp add: callFraudDetector_def quietFrom_await)

lemma quietFrom_ownRisk:
  "quietFrom p (snd
     (andThen (callFraudDetector env request) (\<lambda>ownRiskResult p'.
        case (if success ownRiskResult then data ownRiskResult else None) of
          None \<Rightarrow> callFraudDetector env request p'
        | Some ownRisk \<Rightarrow> returns (combineRisk (config p') providerRisk ownRisk) p') p))"
  by (rule quietFrom_andThen)
    (auto split: option.splits simp: quietFrom_callFraudDetector quietFrom_returns)

lemma quietFrom_providerRisk:
  "quietFrom p (snd
     (andThen (callProviderAssessRisk prov f request) (\<lambda>providerRiskResult.
        case (if success providerRiskResult then data providerRiskResult else None) of
          None \<Rightarrow> callFraudDetector env request
        | Some providerRisk \<Rightarrow>
            andThen (callFraudDetector env request) (\<lambda>ownRiskResult p'.
              case (if success ownRiskResult then data ownRiskResult else None) of
                None \<Rightarrow> callFraudDetector env request p'
              | Some ownRisk \<Rightarrow> returns (combineRisk (config p') providerRisk ownRisk) p')) p))"
  by (rule quietFrom_andThen)
    (auto split: option.splits
      simp: callProviderAssessRisk_def quietFrom_await quietFrom_callFraudDetector
        quietFrom_ownRisk)

lemma quietFrom_assessRisk_try: "quietFrom p (snd (assessRisk_try env request p))"
  unfolding assessRisk_try_def
  by (rule quietFrom_andThen)
    (auto split: option.splits
      simp: callGetPaymentMethod_def quietFrom_await quietFrom_callFraudDetector
        quietFrom_providerRisk)

lemma quietFrom_assessRisk: "quietFrom p (snd (assessRisk env request p))"
  unfolding assessRisk_def
  by (rule quietFrom_andThen)
    (auto simp: ensureInitialized_def quietFrom_returns quietFrom_throws caught_def
      intro!: quietFrom_tryCatch quietFrom_assessRisk_try)

lemma assessRisk_frame:
  assumes "assessRisk env request p = (r, p')"
  shows "config p' = config p" "providerRegistry p' = providerRegistry p"
    "initialized p' = initialized p"
    "filter dispatchOrPersist (calls p') = filter dispatchOrPersist (calls p)"
proof -
  from quietFrom_assessRisk [of p env request] assms obtain cs where
    "p' = p\<lparr>calls := calls p @ cs\<rparr>" "filter dispatchOrPersist cs = []"
    unfolding quietFrom_def by auto
  then show "config p' = config p" "providerRegistry p' = providerRegistry p"
    "initialized p' = initialized p"
    "filter dispatchOrPersist (calls p') = filter dispatchOrPersist (calls p)"
    by simp_all
qed

section \<open>Properties of processPayment\<close>

text \<open>
  With the processor initialized, the request valid and the payment method resolved,
  \<open>processPayment\<close> is the risk check and the dispatch, run after the two calls and
  inside the \<open>try\<close>.
\<close>

lemma processPayment_reaches_risk_check:
  assumes init: "initialized p"
    and valid: "callValidate env request p = (Returns (), p1)"
    and pm: "callGetPaymentMethod env (paymentMethodId request) p1 = (Returns pmr, p2)"
            "success pmr" "data pmr = Some pm"
  shows "processPayment env request p =
           tryCatch (checkRiskThenDispatch env request (pm_type pm)) caught p2"
    and "p2 = p\<lparr>calls := calls p @ [ValidatePaymentRequest request,
                                       GetPaymentMethod (paymentMethodId request)]\<rparr>"
proof -
  show "processPayment env request p =
           tryCatch (checkRiskThenDispatch env request (pm_type pm)) caught p2"
    unfolding processPayment_def
    by (simp add: andThen_def tryCatch_def ensureInitialized_ok init valid pm)
  have "p1 = p\<lparr>calls := calls p @ [ValidatePaymentRequest request]\<rparr>"
    using valid unfolding callValidate_def by (rule await_state)
  moreover have "p2 = p1\<lparr>calls := calls p1 @ [GetPaymentMethod (paymentMethodId request)]\<rparr>"
    using pm(1) unfolding callGetPaymentMethod_def by (rule await_state)
  ultimately show "p2 = p\<lparr>calls := calls p @ [ValidatePaymentRequest request,
                                       GetPaymentMethod (paymentMethodId request)]\<rparr>"
    by simp
qed

text \<open>
  C9. Fraud detection is enabled and the call of \<open>assessRisk\<close> that
  \<open>processPayment\<close> makes returns an envelope with \<open>success\<close> false. Then
  \<open>processPayment\<close> returns a failure envelope with the code
  \<open>fraud_detection_error\<close>, whose message is the assessment's when that is a non-empty
  string; it stops in the state the assessment left, where no call since the start has
  dispatched to a provider or written a transaction. The code is none of the codes of the
  error classes.
\<close>

theorem processPayment_fraud_detection_error:
  assumes init: "initialized p"
    and valid: "callValidate env request p = (Returns (), p1)"
    and pm: "callGetPaymentMethod env (paymentMethodId request) p1 = (Returns pmr, p2)"
            "success pmr" "data pmr = Some pm"
    and en: "fraudEnabled (config p)"
    and risk: "assessRisk env request p2 = (Returns ra, p3)" "\<not> success ra"
  shows "processPayment env request p =
           (Returns \<lparr>success = False, data = None, error = None,
                     errorCode = Some ''fraud_detection_error'',
                     errorMessage = Some
                       (case errorMessage ra of
                          None \<Rightarrow> ''Could not complete fraud assessment''
                        | Some m \<Rightarrow>
                            if m = [] then ''Could not complete fraud assessment'' else m)\<rparr>,
            p3)
         \<and> filter dispatchOrPersist (calls p3) = filter dispatchOrPersist (calls p)
         \<and> ''fraud_detection_error'' \<notin> set errorClassCodes"
proof -
  note reach = processPayment_reaches_risk_check [OF init valid pm]
  have cfg: "config p2 = config p"
    using reach(2) by simp
  have "checkRiskThenDispatch env request (pm_type pm) p2 =
          (Returns (failure ''fraud_detection_error''
             (case errorMessage ra of
                None \<Rightarrow> ''Could not complete fraud assessment''
              | Some m \<Rightarrow> if m = [] then ''Could not complete fraud assessment'' else m)), p3)"
    unfolding checkRiskThenDispatch_def
    by (simp add: cfg en andThen_def risk returns_def)
  then have "processPayment env request p =
          (Returns (failure ''fraud_detection_error''
             (case errorMessage ra of
                None \<Rightarrow> ''Could not complete fraud assessment''
              | Some m \<Rightarrow> if m = [] then ''Could not complete fraud assessment'' else m)), p3)"
    by (simp add: reach(1) tryCatch_def)
  moreover have "filter dispatchOrPersist (calls p3) = filter dispatchOrPersist (calls p)"
    using assessRisk_frame(4) [OF risk(1)] reach(2) by simp
  moreover have "''fraud_detection_error'' \<notin> set errorClassCodes"
    by (simp add: errorClassCodes_def)
  ultimately show ?thesis
    by (simp add: failure_def)
qed

text \<open>
  A fraud detector that answers with a failure envelope: its message is passed on
  under the code \<open>fraud_detection_error\<close>.
\<close>

theorem processPayment_fraud_detection_error_witness:
  "processPayment
     (exampleCollaborators (Returns (failure ''detector_error'' ''detector unavailable''))
        Captured (Returns ()))
     exampleRequest
     (exampleProcessor (fraudOn 0.8 0.5) Map.empty True []) =
   (Returns \<lparr>success = False, data = None, error = None,
             errorCode = Some ''fraud_detection_error'',
             errorMessage = Some ''detector unavailable''\<rparr>,
    exampleProcessor (fraudOn 0.8 0.5) Map.empty True
      [ValidatePaymentRequest exampleRequest, GetPaymentMethod ''pm_1'',
       GetPaymentMethod ''pm_1'', FraudDetectorAssessRisk exampleRequest])"
proof -
  let ?env = "exampleCollaborators
                (Returns (failure ''detector_error'' ''detector unavailable'')) Captured
                (Returns ())"
  let ?p = "exampleProcessor (fraudOn 0.8 0.5) Map.empty True"
  let ?v = "ValidatePaymentRequest exampleRequest"
  let ?g = "GetPaymentMethod ''pm_1''"
  let ?f = "FraudDetectorAssessRisk exampleRequest"
  have h1: "initialized (?p [])"
    by (simp add: exampleProcessor_def)
  have h2: "callValidate ?env exampleRequest (?p []) = (Returns (), ?p [?v])"
    by (simp add: call_defs exampleCollaborators_def exampleProcessor_def)
  have h3: "callGetPaymentMethod ?env (paymentMethodId exampleRequest) (?p [?v]) =
              (Returns (succeeded exampleMethod), ?p [?v, ?g])"
    by (simp add: call_defs exampleCollaborators_def exampleProcessor_def exampleRequest_def)
  have h4: "success (succeeded exampleMethod)"
    "data (succeeded exampleMethod) = Some exampleMethod"
    by (simp_all add: succeeded_def)
  have h5: "fraudEnabled (config (?p []))"
    by (simp add: exampleProcessor_def exampleConfig_def fraudOn_def fraudEnabled_def)
  have h6: "assessRisk ?env exampleRequest (?p [?v, ?g]) =
              (Returns (failure ''detector_error'' ''detector unavailable''),
               ?p [?v, ?g, ?g, ?f])"
    by (simp add: processor_defs call_defs exampleCollaborators_def exampleProcessor_def
        exampleConfig_def fraudOn_def exampleRequest_def succeeded_def exampleMethod_def)
  have h7: "\<not> success (failure ''detector_error'' ''detector unavailable'' :: riskAssessment result)"
    by (simp add: failure_def)
  show ?thesis
    using processPayment_fraud_detection_error [OF h1 h2 h3 h4 h5 h6 h7]
    by (simp add: failure_def)
qed

text \<open>
  When the assessment is high and the \<open>highRisk\<close> threshold is a number other than 0,
  the payment is rejected with \<open>high_risk_payment\<close>, the assessment is the envelope's
  data, and nothing is dispatched or written.
\<close>

lemma processPayment_blocks_high_risk:
  assumes init: "initialized p"
    and valid: "callValidate env request p = (Returns (), p1)"
    and pm: "callGetPaymentMethod env (paymentMethodId request) p1 = (Returns pmr, p2)"
            "success pmr" "data pmr = Some pm"
    and en: "fraudEnabled (config p)"
    and risk: "assessRisk env request p2 = (Returns ra, p3)" "success ra" "data ra = Some a"
              "level a = High"
    and thr: "highRiskThreshold (config p) = Some h" "h \<noteq> 0"
  shows "processPayment env request p =
           (Returns \<lparr>success = False, data = Some (RiskAssessmentData a), error = None,
                     errorCode = Some ''high_risk_payment'',
                     errorMessage = Some ''Payment flagged as high risk''\<rparr>,
            p3)
         \<and> filter dispatchOrPersist (calls p3) = filter dispatchOrPersist (calls p)"
proof -
  note reach = processPayment_reaches_risk_check [OF init valid pm]
  have cfg: "config p2 = config p"
    using reach(2) by simp
  have "checkRiskThenDispatch env request (pm_type pm) p2 =
           (Returns \<lparr>success = False, data = Some (RiskAssessmentData a), error = None,
                     errorCode = Some ''high_risk_payment'',
                     errorMessage = Some ''Payment flagged as high risk''\<rparr>,
            p3)"
    unfolding checkRiskThenDispatch_def
    by (simp add: cfg en andThen_def risk returns_def blocksHighRisk_def thr truthyNumber_def)
  then have "processPayment env request p =
           (Returns \<lparr>success = False, data = Some (RiskAssessmentData a), error = None,
                     errorCode = Some ''high_risk_payment'',
                     errorMessage = Some ''Payment flagged as high risk''\<rparr>,
            p3)"
    by (simp add: reach(1) tryCatch_def)
  moreover have "filter dispatchOrPersist (calls p3) = filter dispatchOrPersist (calls p)"
    using assessRisk_frame(4) [OF risk(1)] reach(2) by simp
  ultimately show ?thesis
    by simp
qed

text \<open>
  C2. With fraud detection enabled, a successful assessment of level high and a
  high-risk threshold configured, \<open>processPayment\<close> is to return \<open>high_risk_payment\<close>
  with the assessment, call no provider and save nothing. The processor does not do so
  when the configured threshold is 0: line 157 reads the threshold for its truthiness,
  and the number 0 is falsy. Here both thresholds are 0; \<open>assessRisk\<close> itself rates the
  request high, from that threshold, and \<open>processPayment\<close> authorizes the payment at the
  provider, saves the transaction and returns the provider's envelope.
\<close>

theorem processPayment_zero_threshold_dispatches:
  "highRiskThreshold
     (config (exampleProcessor (fraudOn 0 0) [Card \<mapsto> exampleProvider] True [])) = Some 0
   \<and> assessRisk (exampleCollaborators (Returns (succeeded (exampleOwnRisk 0.9 High)))
                   Captured (Returns ()))
        exampleRequest
        (exampleProcessor (fraudOn 0 0) [Card \<mapsto> exampleProvider] True
           [ValidatePaymentRequest exampleRequest, GetPaymentMethod ''pm_1'']) =
       (Returns (succeeded
          \<lparr>score = 0.9, level = High,
           factors = factors exampleProviderRisk @ factors (exampleOwnRisk 0.9 High),
           recommendations =
             recommendations exampleProviderRisk @ recommendations (exampleOwnRisk 0.9 High),
           triggeredRules = [''provider_rule'', ''velocity_rule'']\<rparr>),
        exampleProcessor (fraudOn 0 0) [Card \<mapsto> exampleProvider] True
          [ValidatePaymentRequest exampleRequest, GetPaymentMethod ''pm_1'',
           GetPaymentMethod ''pm_1'', ProviderAssessRisk ''generic_card'' exampleRequest,
           FraudDetectorAssessRisk exampleRequest])
   \<and> processPayment (exampleCollaborators (Returns (succeeded (exampleOwnRisk 0.9 High)))
                       Captured (Returns ()))
        exampleRequest
        (exampleProcessor (fraudOn 0 0) [Card \<mapsto> exampleProvider] True []) =
       (Returns (asPayload (succeeded (exampleTransaction Authorized))),
        exampleProcessor (fraudOn 0 0) [Card \<mapsto> exampleProvider] True
          [ValidatePaymentRequest exampleRequest, GetPaymentMethod ''pm_1'',
           GetPaymentMethod ''pm_1'', ProviderAssessRisk ''generic_card'' exampleRequest,
           FraudDetectorAssessRisk exampleRequest,
           ProviderAuthorizePayment ''generic_card'' exampleRequest,
           SaveTransaction (exampleTransaction Authorized)])"
  by (simp add: processor_defs call_defs example_defs)

text \<open>
  The risk check lets the request through: either fraud detection is disabled, or the
  assessment succeeds and is not one that line 154 to 158 block.
\<close>

lemma risk_passed_dispatch:
  assumes pass: "(\<not> fraudEnabled (config p2) \<and> p3 = p2)
          \<or> (fraudEnabled (config p2)
              \<and> (\<exists>ra. assessRisk env request p2 = (Returns ra, p3) \<and> success ra
                       \<and> \<not> blocksHighRisk (config p2) ra))"
  shows "checkRiskThenDispatch env request t p2 = dispatchPayment env request t p3"
    and "config p3 = config p2" and "providerRegistry p3 = providerRegistry p2"
    and "filter dispatchOrPersist (calls p3) = filter dispatchOrPersist (calls p2)"
proof -
  from pass show "checkRiskThenDispatch env request t p2 = dispatchPayment env request t p3"
    unfolding checkRiskThenDispatch_def by (auto simp: andThen_def)
  from pass show "config p3 = config p2"
    by (auto dest: assessRisk_frame(1))
  from pass show "providerRegistry p3 = providerRegistry p2"
    by (auto dest: assessRisk_frame(2))
  from pass show "filter dispatchOrPersist (calls p3) = filter dispatchOrPersist (calls p2)"
    by (auto dest: assessRisk_frame(4))
qed

text \<open>
  When the type the payment method resolves to has no provider, \<open>assessRisk\<close> makes
  two calls, the look-up and the fraud detector's assessment, whatever the latter does.
\<close>

lemma assessRisk_unbound_calls:
  assumes init: "initialized p"
    and en: "fraudEnabled (config p)"
    and again: "getPaymentMethod env (calls p) (paymentMethodId request) = Returns pmr"
               "success pmr" "data pmr = Some pm"
    and unbound: "getProviderForPaymentMethod p (pm_type pm) = None"
  shows "calls (snd (assessRisk env request p)) =
           calls p @ [GetPaymentMethod (paymentMethodId request),
                      FraudDetectorAssessRisk request]"
proof -
  let ?p1 = "p\<lparr>calls := calls p @ [GetPaymentMethod (paymentMethodId request)]\<rparr>"
  have look: "callGetPaymentMethod env (paymentMethodId request) p = (Returns pmr, ?p1)"
    by (simp add: callGetPaymentMethod_def await_def again(1))
  have none: "getProviderForPaymentMethod ?p1 (pm_type pm) = None"
    using unbound by (simp add: getProviderForPaymentMethod_def getProvider_def)
  have body: "assessRisk_try env request p = callFraudDetector env request ?p1"
    unfolding assessRisk_try_def
    by (simp add: andThen_def look again none)
  have "assessRisk env request p = tryCatch (callFraudDetector env request) caught ?p1"
    unfolding assessRisk_def
    by (simp add: andThen_def ensureInitialized_ok init en tryCatch_def body)
  then show ?thesis
    by (simp add: tryCatch_def callFraudDetector_def await_def caught_def returns_def
        split: outcome.splits)
qed


text \<open>
  C7. The request is valid, its payment method resolves to a type that has no provider
  in the registry, and the risk check lets the request through. Then \<open>processPayment\<close>
  returns a failure envelope with the code \<open>provider_not_found\<close> and a message naming
  the type; it stops in the state the risk check left, where no call since the start has
  dispatched to a provider or written a transaction. With fraud detection disabled the
  calls made are the validation and the look-up of the payment method; with it enabled,
  and the second look-up answered as the first, they are followed by that look-up and
  the fraud detector's assessment, so that no provider is called at all.
\<close>

theorem processPayment_provider_not_found:
  assumes init: "initialized p"
    and valid: "callValidate env request p = (Returns (), p1)"
    and pm: "callGetPaymentMethod env (paymentMethodId request) p1 = (Returns pmr, p2)"
            "success pmr" "data pmr = Some pm"
    and pass: "(\<not> fraudEnabled (config p) \<and> p3 = p2)
          \<or> (fraudEnabled (config p)
              \<and> (\<exists>ra. assessRisk env request p2 = (Returns ra, p3) \<and> success ra
                       \<and> \<not> blocksHighRisk (config p) ra))"
    and unbound: "getProviderForPaymentMethod p (pm_type pm) = None"
  shows "processPayment env request p =
           (Returns \<lparr>success = False, data = None, error = None,
                     errorCode = Some ''provider_not_found'',
                     errorMessage = Some (''No provider available for payment method type: ''
                                          @ paymentMethodTypeString (pm_type pm))\<rparr>,
            p3)
         \<and> filter dispatchOrPersist (calls p3) = filter dispatchOrPersist (calls p)
         \<and> (\<not> fraudEnabled (config p) \<longrightarrow>
              calls p3 = calls p @ [ValidatePaymentRequest request,
                                    GetPaymentMethod (paymentMethodId request)])
         \<and> (fraudEnabled (config p)
              \<and> getPaymentMethod env (calls p2) (paymentMethodId request) = Returns pmr \<longrightarrow>
              calls p3 = calls p @ [ValidatePaymentRequest request,
                                    GetPaymentMethod (paymentMethodId request),
                                    GetPaymentMethod (paymentMethodId request),
                                    FraudDetectorAssessRisk request])"
proof -
  note reach = processPayment_reaches_risk_check [OF init valid pm]
  have cfg: "config p2 = config p" and reg: "providerRegistry p2 = providerRegistry p"
    and ini: "initialized p2"
    using reach(2) init by simp_all
  have pass2: "(\<not> fraudEnabled (config p2) \<and> p3 = p2)
          \<or> (fraudEnabled (config p2)
              \<and> (\<exists>ra. assessRisk env request p2 = (Returns ra, p3) \<and> success ra
                       \<and> \<not> blocksHighRisk (config p2) ra))"
    using pass by (simp add: cfg)
  note step = risk_passed_dispatch [OF pass2]
  have unbound2: "getProviderForPaymentMethod p2 (pm_type pm) = None"
    using unbound reg by (simp add: getProviderForPaymentMethod_def getProvider_def)
  have "getProviderForPaymentMethod p3 (pm_type pm) = None"
    using unbound step(3) reg by (simp add: getProviderForPaymentMethod_def getProvider_def)
  then have "dispatchPayment env request (pm_type pm) p3 =
           (Returns (failure ''provider_not_found''
                       (''No provider available for payment method type: ''
                        @ paymentMethodTypeString (pm_type pm))), p3)"
    by (simp add: dispatchPayment_def returns_def)
  then have "processPayment env request p =
           (Returns (failure ''provider_not_found''
                       (''No provider available for payment method type: ''
                        @ paymentMethodTypeString (pm_type pm))), p3)"
    by (simp add: reach(1) tryCatch_def step(1))
  moreover have "filter dispatchOrPersist (calls p3) = filter dispatchOrPersist (calls p)"
    using step(4) reach(2) by simp
  moreover have "calls p3 = calls p @ [ValidatePaymentRequest request,
                                    GetPaymentMethod (paymentMethodId request)]"
    if "\<not> fraudEnabled (config p)"
    using that pass reach(2) by auto
  moreover have "calls p3 = calls p @ [ValidatePaymentRequest request,
                                    GetPaymentMethod (paymentMethodId request),
                                    GetPaymentMethod (paymentMethodId request),
                                    FraudDetectorAssessRisk request]"
    if en: "fraudEnabled (config p)"
      and again: "getPaymentMethod env (calls p2) (paymentMethodId request) = Returns pmr"
  proof -
    from pass en obtain ra where "assessRisk env request p2 = (Returns ra, p3)"
      by auto
    then have "calls p3 = calls (snd (assessRisk env request p2))"
      by simp
    also have "\<dots> = calls p2 @ [GetPaymentMethod (paymentMethodId request),
                                 FraudDetectorAssessRisk request]"
      using en by (intro assessRisk_unbound_calls [OF ini _ again pm(2,3) unbound2])
        (simp add: cfg)
    finally show ?thesis
      using reach(2) by simp
  qed
  ultimately show ?thesis
    by (simp add: failure_def)
qed


text \<open>
  An empty registry, fraud detection enabled and a low assessment: the card payment
  ends in \<open>provider_not_found\<close> after the two look-ups and the fraud detector's call.
\<close>

theorem processPayment_provider_not_found_witness:
  "processPayment
     (exampleCollaborators (Returns (succeeded (exampleOwnRisk 0.1 Low))) Captured (Returns ()))
     exampleRequest
     (exampleProcessor (fraudOn 0.8 0.5) Map.empty True []) =
   (Returns \<lparr>success = False, data = None, error = None,
             errorCode = Some ''provider_not_found'',
             errorMessage = Some ''No provider available for payment method type: card''\<rparr>,
    exampleProcessor (fraudOn 0.8 0.5) Map.empty True
      [ValidatePaymentRequest exampleRequest, GetPaymentMethod ''pm_1'',
       GetPaymentMethod ''pm_1'', FraudDetectorAssessRisk exampleRequest])"
proof -
  let ?env = "exampleCollaborators (Returns (succeeded (exampleOwnRisk 0.1 Low))) Captured
                (Returns ())"
  let ?p = "exampleProcessor (fraudOn 0.8 0.5) Map.empty True"
  let ?v = "ValidatePaymentRequest exampleRequest"
  let ?g = "GetPaymentMethod ''pm_1''"
  let ?f = "FraudDetectorAssessRisk exampleRequest"
  have h1: "initialized (?p [])"
    by (simp add: exampleProcessor_def)
  have h2: "callValidate ?env exampleRequest (?p []) = (Returns (), ?p [?v])"
    by (simp add: call_defs exampleCollaborators_def exampleProcessor_def)
  have h3: "callGetPaymentMethod ?env (paymentMethodId exampleRequest) (?p [?v]) =
              (Returns (succeeded exampleMethod), ?p [?v, ?g])"
    by (simp add: call_defs exampleCollaborators_def exampleProcessor_def exampleRequest_def)
  have h4: "success (succeeded exampleMethod)"
    "data (succeeded exampleMethod) = Some exampleMethod"
    by (simp_all add: succeeded_def)
  have risk: "assessRisk ?env exampleRequest (?p [?v, ?g]) =
                (Returns (succeeded (exampleOwnRisk 0.1 Low)), ?p [?v, ?g, ?g, ?f])"
    by (simp add: processor_defs call_defs exampleCollaborators_def exampleProcessor_def
        exampleConfig_def fraudOn_def exampleRequest_def succeeded_def exampleMethod_def)
  have h5: "(\<not> fraudEnabled (config (?p [])) \<and> ?p [?v, ?g, ?g, ?f] = ?p [?v, ?g])
          \<or> (fraudEnabled (config (?p []))
              \<and> (\<exists>ra. assessRisk ?env exampleRequest (?p [?v, ?g]) =
                         (Returns ra, ?p [?v, ?g, ?g, ?f])
                       \<and> success ra \<and> \<not> blocksHighRisk (config (?p [])) ra))"
    unfolding risk
    by (simp add: exampleProcessor_def exampleConfig_def fraudOn_def fraudEnabled_def
        blocksHighRisk_def succeeded_def exampleOwnRisk_def)
  have h6: "getProviderForPaymentMethod (?p []) (pm_type exampleMethod) = None"
    by (simp add: getProviderForPaymentMethod_def getProvider_def exampleProcessor_def)
  show ?thesis
    using processPayment_provider_not_found [OF h1 h2 h3 h4 h5 h6]
    by (simp add: exampleMethod_def)
qed

text \<open>
  C4, as stated, fails when \<open>saveTransaction\<close> throws. The provider has returned a
  successful envelope with a transaction, \<open>saveTransaction\<close> is called and throws an
  \<open>Error\<close>, and the \<open>catch\<close> block of \<open>processPayment\<close> returns a failure envelope
  built from that error, not the envelope the provider returned.
\<close>

theorem processPayment_save_throws_counterexample:
  "provider_authorizePayment exampleProvider
     [ValidatePaymentRequest exampleRequest, GetPaymentMethod ''pm_1''] exampleRequest =
     Returns (succeeded (exampleTransaction Authorized))
   \<and> processPayment
        (exampleCollaborators (Throws Undefined) Captured
           (Throws (ErrorObject ''Error'' ''disk full'')))
        exampleRequest
        (exampleProcessor None [Card \<mapsto> exampleProvider] True []) =
       (Returns \<lparr>success = False, data = None,
                 error = Some (PaymentErrorObject
                   (PaymentError ''PaymentError'' ''disk full'' ''payment_error'' 500 False None
                      (Some (ErrorObject ''Error'' ''disk full'')))),
                 errorCode = Some ''payment_error'', errorMessage = Some ''disk full''\<rparr>,
        exampleProcessor None [Card \<mapsto> exampleProvider] True
          [ValidatePaymentRequest exampleRequest, GetPaymentMethod ''pm_1'',
           ProviderAuthorizePayment ''generic_card'' exampleRequest,
           SaveTransaction (exampleTransaction Authorized)])
   \<and> fst (processPayment
        (exampleCollaborators (Throws Undefined) Captured
           (Throws (ErrorObject ''Error'' ''disk full'')))
        exampleRequest
        (exampleProcessor None [Card \<mapsto> exampleProvider] True []))
       \<noteq> Returns (asPayload (succeeded (exampleTransaction Authorized)))"
  by (simp add: processor_defs call_defs example_defs)

text \<open>
  C4, amended. The request reaches the dispatch: the processor is initialized, the
  request valid, the payment method resolved, the risk check passed, the provider found;
  and the provider's call returns an envelope. Then the one call made to the provider is
  \<open>authorizePayment\<close> when \<open>authorizeOnly\<close> is true and \<open>processPayment\<close> otherwise,
  and \<open>saveTransaction\<close> is called next, with the envelope's transaction, exactly when
  the envelope has \<open>success\<close> true and data. Unless that call throws,
  \<open>processPayment\<close> returns the provider's envelope unchanged; when it throws,
  \<open>processPayment\<close> returns the failure envelope that the \<open>catch\<close> block builds from
  the thrown value.
\<close>

theorem processPayment_dispatch:
  assumes init: "initialized p"
    and valid: "callValidate env request p = (Returns (), p1)"
    and pm: "callGetPaymentMethod env (paymentMethodId request) p1 = (Returns pmr, p2)"
            "success pmr" "data pmr = Some pm"
    and pass: "(\<not> fraudEnabled (config p) \<and> p3 = p2)
          \<or> (fraudEnabled (config p)
              \<and> (\<exists>ra. assessRisk env request p2 = (Returns ra, p3) \<and> success ra
                       \<and> \<not> blocksHighRisk (config p) ra))"
    and found: "getProviderForPaymentMethod p (pm_type pm) = Some prov"
    and answer: "callProviderPayment prov request p3 = (Returns result, p4)"
    and saved: "case (if success result then data result else None) of
                  None \<Rightarrow> sr = Returns () \<and> p5 = p4
                | Some t \<Rightarrow> callSaveTransaction env t p4 = (sr, p5)"
  shows "processPayment env request p =
           (case sr of
              Returns u \<Rightarrow> Returns (asPayload result)
            | Throws e \<Rightarrow>
                Returns \<lparr>success = False, data = None,
                         error = Some (PaymentErrorObject (toPaymentError e None)),
                         errorCode = Some (code (toPaymentError e None)),
                         errorMessage = Some (message (toPaymentError e None))\<rparr>,
            p5)
         \<and> calls p4 = calls p3 @
             [if authorizeOnly request = Some True
              then ProviderAuthorizePayment (provider_id prov) request
              else ProviderProcessPayment (provider_id prov) request]
         \<and> calls p5 = calls p4 @
             (case (if success result then data result else None) of
                None \<Rightarrow> []
              | Some t \<Rightarrow> [SaveTransaction t])"
proof -
  note reach = processPayment_reaches_risk_check [OF init valid pm]
  have cfg: "config p2 = config p" and reg: "providerRegistry p2 = providerRegistry p"
    using reach(2) by simp_all
  have pass2: "(\<not> fraudEnabled (config p2) \<and> p3 = p2)
          \<or> (fraudEnabled (config p2)
              \<and> (\<exists>ra. assessRisk env request p2 = (Returns ra, p3) \<and> success ra
                       \<and> \<not> blocksHighRisk (config p2) ra))"
    using pass by (simp add: cfg)
  note step = risk_passed_dispatch [OF pass2]
  have bound: "getProviderForPaymentMethod p3 (pm_type pm) = Some prov"
    using found step(3) reg by (simp add: getProviderForPaymentMethod_def getProvider_def)
  have "dispatchPayment env request (pm_type pm) p3 =
          (case sr of Returns u \<Rightarrow> Returns (asPayload result) | Throws e \<Rightarrow> Throws e, p5)"
    using saved unfolding dispatchPayment_def
    by (auto simp: bound andThen_def answer returns_def
        split: option.splits if_splits outcome.splits)
  then have "processPayment env request p =
           (case sr of
              Returns u \<Rightarrow> Returns (asPayload result)
            | Throws e \<Rightarrow>
                Returns \<lparr>success = False, data = None,
                         error = Some (PaymentErrorObject (toPaymentError e None)),
                         errorCode = Some (code (toPaymentError e None)),
                         errorMessage = Some (message (toPaymentError e None))\<rparr>,
            p5)"
    by (cases sr) (simp_all add: reach(1) tryCatch_def step(1) caught_def returns_def Let_def)
  moreover have "calls p4 = calls p3 @
             [if authorizeOnly request = Some True
              then ProviderAuthorizePayment (provider_id prov) request
              else ProviderProcessPayment (provider_id prov) request]"
    using answer by (auto simp: callProviderPayment_def await_def split: if_splits)
  moreover have "calls p5 = calls p4 @
             (case (if success result then data result else None) of
                None \<Rightarrow> []
              | Some t \<Rightarrow> [SaveTransaction t])"
    using saved by (auto simp: callSaveTransaction_def await_def split: option.splits if_splits)
  ultimately show ?thesis
    by simp
qed


text \<open>
  An authorize-only request with fraud detection disabled: the provider authorizes,
  the transaction is saved, the provider's envelope is returned.
\<close>

theorem processPayment_dispatch_witness:
  "processPayment (exampleCollaborators (Throws Undefined) Captured (Returns ())) exampleRequest
     (exampleProcessor None [Card \<mapsto> exampleProvider] True []) =
   (Returns (asPayload (succeeded (exampleTransaction Authorized))),
    exampleProcessor None [Card \<mapsto> exampleProvider] True
      [ValidatePaymentRequest exampleRequest, GetPaymentMethod ''pm_1'',
       ProviderAuthorizePayment ''generic_card'' exampleRequest,
       SaveTransaction (exampleTransaction Authorized)])"
proof -
  let ?env = "exampleCollaborators (Throws Undefined) Captured (Returns ())"
  let ?p = "exampleProcessor None [Card \<mapsto> exampleProvider] True"
  let ?v = "ValidatePaymentRequest exampleRequest"
  let ?g = "GetPaymentMethod ''pm_1''"
  let ?a = "ProviderAuthorizePayment ''generic_card'' exampleRequest"
  let ?s = "SaveTransaction (exampleTransaction Authorized)"
  let ?r = "succeeded (exampleTransaction Authorized)"
  have h1: "initialized (?p [])"
    by (simp add: exampleProcessor_def)
  have h2: "callValidate ?env exampleRequest (?p []) = (Returns (), ?p [?v])"
    by (simp add: call_defs exampleCollaborators_def exampleProcessor_def)
  have h3: "callGetPaymentMethod ?env (paymentMethodId exampleRequest) (?p [?v]) =
              (Returns (succeeded exampleMethod), ?p [?v, ?g])"
    by (simp add: call_defs exampleCollaborators_def exampleProcessor_def exampleRequest_def)
  have h4: "success (succeeded exampleMethod)"
    "data (succeeded exampleMethod) = Some exampleMethod"
    by (simp_all add: succeeded_def)
  have h5: "(\<not> fraudEnabled (config (?p [])) \<and> ?p [?v, ?g] = ?p [?v, ?g])
          \<or> (fraudEnabled (config (?p []))
              \<and> (\<exists>ra. assessRisk ?env exampleRequest (?p [?v, ?g]) = (Returns ra, ?p [?v, ?g])
                       \<and> success ra \<and> \<not> blocksHighRisk (config (?p [])) ra))"
    by (simp add: exampleProcessor_def exampleConfig_def fraudEnabled_def)
  have h6: "getProviderForPaymentMethod (?p []) (pm_type exampleMethod) = Some exampleProvider"
    by (simp add: getProviderForPaymentMethod_def getProvider_def exampleProcessor_def
        exampleMethod_def)
  have h7: "callProviderPayment exampleProvider exampleRequest (?p [?v, ?g]) =
              (Returns ?r, ?p [?v, ?g, ?a])"
    by (simp add: call_defs exampleProvider_def exampleProcessor_def exampleRequest_def)
  have h8: "case (if success ?r then data ?r else None) of
              None \<Rightarrow> Returns () = Returns () \<and> ?p [?v, ?g, ?a, ?s] = ?p [?v, ?g, ?a]
            | Some t \<Rightarrow> callSaveTransaction ?env t (?p [?v, ?g, ?a]) =
                         (Returns (), ?p [?v, ?g, ?a, ?s])"
    by (simp add: call_defs succeeded_def exampleCollaborators_def exampleProcessor_def)
  show ?thesis
    using processPayment_dispatch [OF h1 h2 h3 h4 h5 h6 h7 h8]
    by simp
qed

section \<open>Properties of capturePayment and cancelPayment\<close>

text \<open>
  C3. The processor is initialized and the transaction manager returns the transaction
  stored under the id, whose status is not \<open>authorized\<close>. Then \<open>capturePayment\<close>
  returns a failure envelope with the code \<open>invalid_transaction_state\<close> and a message
  that names the id and the status. The only call it has made is \<open>getTransaction\<close>:
  no provider has been asked to capture and \<open>updateTransaction\<close> has not been called,
  so nothing has touched the stored transaction, its status or its timeline.
\<close>

theorem capturePayment_invalid_state:
  assumes init: "initialized p"
    and got: "callGetTransaction env transactionId p = (Returns tr, p1)"
             "success tr" "data tr = Some t"
    and st: "status t \<noteq> Authorized"
  shows "capturePayment env transactionId amt p =
           (Returns \<lparr>success = False, data = None, error = None,
                     errorCode = Some ''invalid_transaction_state'',
                     errorMessage = Some
                       (''Transaction with ID '' @ transactionId
                        @ '' cannot be captured (status: ''
                        @ transactionStatusString (status t) @ '')'')\<rparr>,
            p1)
         \<and> p1 = p\<lparr>calls := calls p @ [GetTransaction transactionId]\<rparr>"
proof -
  have "capturePayment env transactionId amt p =
          (Returns (failure ''invalid_transaction_state''
                      (''Transaction with ID '' @ transactionId
                       @ '' cannot be captured (status: ''
                       @ transactionStatusString (status t) @ '')'')), p1)"
    unfolding capturePayment_def
    by (simp add: andThen_def tryCatch_def ensureInitialized_ok init got st returns_def)
  moreover have "p1 = p\<lparr>calls := calls p @ [GetTransaction transactionId]\<rparr>"
    using got(1) unfolding callGetTransaction_def by (rule await_state)
  ultimately show ?thesis
    by (simp add: failure_def)
qed

text \<open>
  Capturing \<open>tx_1\<close>, which is already captured.
\<close>

theorem capturePayment_invalid_state_witness:
  "capturePayment (exampleCollaborators (Throws Undefined) Captured (Returns ())) ''tx_1'' None
     (exampleProcessor None [Card \<mapsto> exampleProvider] True []) =
   (Returns \<lparr>success = False, data = None, error = None,
             errorCode = Some ''invalid_transaction_state'',
             errorMessage = Some
               ''Transaction with ID tx_1 cannot be captured (status: captured)''\<rparr>,
    exampleProcessor None [Card \<mapsto> exampleProvider] True [GetTransaction ''tx_1''])"
proof -
  let ?env = "exampleCollaborators (Throws Undefined) Captured (Returns ())"
  let ?p = "exampleProcessor None [Card \<mapsto> exampleProvider] True"
  have h1: "initialized (?p [])"
    by (simp add: exampleProcessor_def)
  have h2: "callGetTransaction ?env ''tx_1'' (?p []) =
              (Returns (succeeded (exampleTransaction Captured)), ?p [GetTransaction ''tx_1''])"
    by (simp add: call_defs exampleCollaborators_def exampleProcessor_def)
  have h3: "success (succeeded (exampleTransaction Captured))"
    "data (succeeded (exampleTransaction Captured)) = Some (exampleTransaction Captured)"
    by (simp_all add: succeeded_def)
  have h4: "status (exampleTransaction Captured) \<noteq> Authorized"
    by (simp add: exampleTransaction_def)
  show ?thesis
    using capturePayment_invalid_state [OF h1 h2 h3 h4, of None]
    by (simp add: exampleTransaction_def)
qed

text \<open>
  C8. The processor is initialized and the transaction manager returns the transaction
  stored under the id, whose status is none of \<open>initialized\<close>, \<open>authorized\<close> and
  \<open>pending\<close>. Then \<open>cancelPayment\<close> returns a failure envelope with the code
  \<open>invalid_transaction_state\<close>, and the only call it has made is \<open>getTransaction\<close>:
  no provider has been asked to cancel and \<open>updateTransaction\<close> has not been called.
\<close>

theorem cancelPayment_invalid_state:
  assumes init: "initialized p"
    and got: "callGetTransaction env transactionId p = (Returns tr, p1)"
             "success tr" "data tr = Some t"
    and st: "status t \<noteq> Initialized" "status t \<noteq> Authorized" "status t \<noteq> Pending"
  shows "cancelPayment env transactionId p =
           (Returns \<lparr>success = False, data = None, error = None,
                     errorCode = Some ''invalid_transaction_state'',
                     errorMessage = Some
                       (''Transaction with ID '' @ transactionId
                        @ '' cannot be canceled (status: ''
                        @ transactionStatusString (status t) @ '')'')\<rparr>,
            p1)
         \<and> p1 = p\<lparr>calls := calls p @ [GetTransaction transactionId]\<rparr>"
proof -
  have "cancelPayment env transactionId p =
          (Returns (failure ''invalid_transaction_state''
                      (''Transaction with ID '' @ transactionId
                       @ '' cannot be canceled (status: ''
                       @ transactionStatusString (status t) @ '')'')), p1)"
    unfolding cancelPayment_def
    by (simp add: andThen_def tryCatch_def ensureInitialized_ok init got st returns_def)
  moreover have "p1 = p\<lparr>calls := calls p @ [GetTransaction transactionId]\<rparr>"
    using got(1) unfolding callGetTransaction_def by (rule await_state)
  ultimately show ?thesis
    by (simp add: failure_def)
qed

text \<open>
  Cancelling \<open>tx_1\<close>, which is already captured.
\<close>

theorem cancelPayment_invalid_state_witness:
  "cancelPayment (exampleCollaborators (Throws Undefined) Captured (Returns ())) ''tx_1''
     (exampleProcessor None [Card \<mapsto> exampleProvider] True []) =
   (Returns \<lparr>success = False, data = None, error = None,
             errorCode = Some ''invalid_transaction_state'',
             errorMessage = Some
               ''Transaction with ID tx_1 cannot be canceled (status: captured)''\<rparr>,
    exampleProcessor None [Card \<mapsto> exampleProvider] True [GetTransaction ''tx_1''])"
proof -
  let ?env = "exampleCollaborators (Throws Undefined) Captured (Returns ())"
  let ?p = "exampleProcessor None [Card \<mapsto> exampleProvider] True"
  have h1: "initialized (?p [])"
    by (simp add: exampleProcessor_def)
  have h2: "callGetTransaction ?env ''tx_1'' (?p []) =
              (Returns (succeeded (exampleTransaction Captured)), ?p [GetTransaction ''tx_1''])"
    by (simp add: call_defs exampleCollaborators_def exampleProcessor_def)
  have h3: "success (succeeded (exampleTransaction Captured))"
    "data (succeeded (exampleTransaction Captured)) = Some (exampleTransaction Captured)"
    by (simp_all add: succeeded_def)
  have h4: "status (exampleTransaction Captured) \<noteq> Initialized"
    "status (exampleTransaction Captured) \<noteq> Authorized"
    "status (exampleTransaction Captured) \<noteq> Pending"
    by (simp_all add: exampleTransaction_def)
  show ?thesis
    using cancelPayment_invalid_state [OF h1 h2 h3 h4]
    by (simp add: exampleTransaction_def)
qed

section \<open>Properties of initialize\<close>

text \<open>
  Whenever \<open>initialize\<close> returns rather than throws, the processor is initialized.
\<close>

lemma initialize_sets_initialized:
  assumes "initialize env p = (Returns u, p')"
  shows "initialized p'"
proof (cases "initialized p")
  case True
  then show ?thesis
    using assms by (simp add: initialize_def returns_def)
next
  case False
  let ?body = "andThen (registerProviders env) (\<lambda>_.
              andThen (callInitialize env TransactionManager) (\<lambda>_.
              andThen (callInitialize env PaymentMethodManager) (\<lambda>_.
              andThen (callInitialize env RecurringBillingManager) (\<lambda>_.
              andThen (callInitialize env RefundProcessor) (\<lambda>_.
              andThen (callInitialize env DisputeManager) (\<lambda>_.
              andThen (callInitialize env FraudDetector) (\<lambda>_ p'.
                returns () (p'\<lparr>initialized := True\<rparr>))))))))"
  have "?body p = (Returns u, p')"
    using assms False
    by (auto simp: initialize_def tryCatch_def throws_def split: prod.splits outcome.splits)
  then show ?thesis
    by (auto elim!: andThen_ReturnsE simp: returns_def)
qed

text \<open>
  C10. After a call of \<open>initialize\<close> that returned, the processor is initialized,
  and a further call, whatever the collaborators would now do, returns at once in the
  very same state: the registry is as it was and no call has been made, so no provider
  is constructed or registered again and no component is initialized again. The state
  being unchanged, the same holds for every later call.
\<close>

theorem initialize_idempotent:
  assumes "initialize env p = (Returns (), p')"
  shows "initialized p' \<and> initialize env' p' = (Returns (), p')"
  using initialize_sets_initialized [OF assms]
  by (simp add: initialize_def returns_def)

text \<open>
  A first call on a fresh processor without a Stripe key registers the generic card
  provider and initializes the six components; a second call, with collaborators of
  which one would throw, changes nothing.
\<close>

theorem initialize_idempotent_witness:
  "initialize (exampleCollaborators (Throws Undefined) Captured (Returns ()))
     (exampleProcessor None Map.empty False []) =
   (Returns (),
    exampleProcessor None [Card \<mapsto> exampleProvider] True
      [NewProvider GenericCardProvider
         \<lparr>apiKey = None, clientId = None, secret = None, po_environment = ''sandbox''\<rparr>,
       InitializeComponent TransactionManager, InitializeComponent PaymentMethodManager,
       InitializeComponent RecurringBillingManager, InitializeComponent RefundProcessor,
       InitializeComponent DisputeManager, InitializeComponent FraudDetector])
   \<and> initialize (exampleCollaborators (Throws Undefined) Captured (Throws Undefined))
       (exampleProcessor None [Card \<mapsto> exampleProvider] True
          [NewProvider GenericCardProvider
             \<lparr>apiKey = None, clientId = None, secret = None, po_environment = ''sandbox''\<rparr>,
           InitializeComponent TransactionManager, InitializeComponent PaymentMethodManager,
           InitializeComponent RecurringBillingManager, InitializeComponent RefundProcessor,
           InitializeComponent DisputeManager, InitializeComponent FraudDetector]) =
      (Returns (),
       exampleProcessor None [Card \<mapsto> exampleProvider] True
         [NewProvider GenericCardProvider
            \<lparr>apiKey = None, clientId = None, secret = None, po_environment = ''sandbox''\<rparr>,
          InitializeComponent TransactionManager, InitializeComponent PaymentMethodManager,
          InitializeComponent RecurringBillingManager, InitializeComponent RefundProcessor,
          InitializeComponent DisputeManager, InitializeComponent FraudDetector])"
proof -
  let ?env = "exampleCollaborators (Throws Undefined) Captured (Returns ())"
  let ?p' = "exampleProcessor None [Card \<mapsto> exampleProvider] True
      [NewProvider GenericCardProvider
         \<lparr>apiKey = None, clientId = None, secret = None, po_environment = ''sandbox''\<rparr>,
       InitializeComponent TransactionManager, InitializeComponent PaymentMethodManager,
       InitializeComponent RecurringBillingManager, InitializeComponent RefundProcessor,
       InitializeComponent DisputeManager, InitializeComponent FraudDetector]"
  have h: "initialize ?env (exampleProcessor None Map.empty False []) = (Returns (), ?p')"
    by (simp add: initialize_def registerProviders_def registerProvider_def truthyString_def
        andThen_def tryCatch_def returns_def call_defs exampleCollaborators_def
        exampleProcessor_def exampleConfig_def)
  show ?thesis
    using h initialize_idempotent [OF h] by simp
qed

end
